theory Spec2Isabelle
  imports Main "HOL-Library.Word" "HOL-Library.Sublist"
begin

section \<open>The Bor consensus engine (consensus/bor/bor.go)\<close>

text \<open>
  A shallow embedding of the functions of \<^verbatim>\<open>consensus/bor/bor.go\<close>: header
  verification, the snapshot lookup, \<^verbatim>\<open>Prepare\<close>, \<^verbatim>\<open>Seal\<close>, \<^verbatim>\<open>Finalize\<close> and
  \<^verbatim>\<open>FinalizeAndAssemble\<close> with the span and state-sync commits, and the contract reads.
  Go's \<^verbatim>\<open>uint64\<close> is \<open>64 word\<close> (arithmetic wraps), Go's \<^verbatim>\<open>int\<close> and
  \<^verbatim>\<open>int64\<close> are \<open>64 word\<close> read as two's complement (\<open>sint\<close>, \<open><s\<close>), a byte slice is
  a list of \<open>8 word\<close>, a nil-able pointer is an \<open>option\<close>. A function that returns an error,
  or can panic, returns a sum; a function that changes the world, the state or the header
  returns them.
\<close>

subsection \<open>Data model\<close>

type_synonym uint64 = "64 word"
type_synonym int64 = "64 word"
type_synonym byte = "8 word"
type_synonym hash = "256 word"
type_synonym address = "160 word"

text \<open>
  The fields of \<^verbatim>\<open>types.Header\<close> that bor.go reads or writes. \<^verbatim>\<open>Number\<close> and
  \<^verbatim>\<open>Difficulty\<close> are \<^verbatim>\<open>*big.Int\<close>: \<open>None\<close> is nil, and \<^verbatim>\<open>Uint64()\<close> keeps the low
  64 bits (\<open>word_of_nat\<close>).
\<close>

record Header =
  ParentHash :: hash
  UncleHash :: hash
  Coinbase :: address
  Root :: hash
  Difficulty :: "nat option"
  Number :: "nat option"
  Time :: uint64
  Extra :: "byte list"
  MixDigest :: hash
  Nonce :: uint64

typedecl Transaction
typedecl Receipt

record Block =
  blockHeader :: Header
  Transactions :: "Transaction list"

text \<open>The part of \<^verbatim>\<open>params.BorConfig\<close> that bor.go reads; both maps are keyed by the
  decimal text of a block number.\<close>

record BorConfig =
  Period :: uint64
  ProducerDelay :: uint64
  Sprint :: uint64
  BackupMultiplier :: uint64
  ValidatorContract :: string
  StateReceiverContract :: string
  OverrideStateSyncRecords :: "(string \<rightharpoonup> int64) option"
  BlockAlloc :: "(string \<times> string) list"

record Span =
  spanID :: uint64
  StartBlock :: uint64
  EndBlock :: uint64

record Validator =
  valID :: uint64
  Address :: address
  VotingPower :: int64
  ProposerPriority :: int64

record ValidatorSet =
  Validators :: "Validator list"

record Snapshot =
  snapNumber :: uint64
  snapHash :: hash
  snapValidatorSet :: ValidatorSet

record HeimdallSpan =
  hsSpan :: Span
  hsValidatorSet :: ValidatorSet
  SelectedProducers :: "Validator list"
  hsChainID :: string

text \<open>A \<^verbatim>\<open>time.Time\<close> is an instant, counted in nanoseconds since the Unix epoch.\<close>

type_synonym instant = int

record EventRecordWithTime =
  evID :: uint64
  Contract :: address
  Data :: "byte list"
  TxHash :: hash
  evChainID :: string
  evTime :: instant

record StateSyncData =
  ssID :: uint64
  ssContract :: address
  ssData :: string
  ssTxHash :: hash

record callmsg =
  msgFrom :: address
  msgTo :: "address option"
  msgGas :: uint64
  msgGasPrice :: nat
  msgValue :: nat
  msgData :: "byte list"

record TransactionArgs =
  txGas :: uint64
  txTo :: address
  txData :: "byte list"

datatype BlockNumberOrHash = WithHash hash bool | WithNumber int64

datatype abiArg = abiUint nat | abiBytes "byte list"

subsection \<open>Errors and panics\<close>

text \<open>
  The sentinel errors of the package and of \<^verbatim>\<open>consensus\<close>, the structured errors with
  the fields bor.go fills in, \<open>errorString\<close> for \<^verbatim>\<open>errors.New\<close> and for the errors of
  collaborators, \<open>errorf\<close> for \<^verbatim>\<open>fmt.Errorf\<close> with its format and arguments.
\<close>

datatype error =
    errUnknownBlock
  | errMissingVanity
  | errMissingSignature
  | errExtraValidators
  | errInvalidSpanValidators
  | errInvalidMixDigest
  | errInvalidUncleHash
  | errInvalidDifficulty
  | ErrInvalidTimestamp
  | ErrFutureBlock
  | ErrUnknownAncestor
  | MismatchingValidatorsError uint64 "byte list" "byte list"
  | UnauthorizedSignerError uint64 address
  | BlockTooSoonError uint64 int64
  | WrongDifficultyError uint64 uint64 uint64 address
  | InvalidStateReceivedError uint64 uint64 instant EventRecordWithTime
  | errorString string
  | errorf string "string list"
  | errorfErr string error

text \<open>
  A call ends by returning a value, by returning an error (\<open>Err\<close>) or by panicking:
  \<open>runtimeError\<close> is a panic of the Go runtime, \<open>panicValue\<close> is \<^verbatim>\<open>panic(err)\<close>.
\<close>

datatype panic = runtimeError string | panicValue error

datatype fault = Err error | Panic panic

type_synonym 'a result = "fault + 'a"

definition nilDereference :: fault where
  "nilDereference = Panic (runtimeError ''invalid memory address or nil pointer dereference'')"

definition divideByZero :: fault where
  "divideByZero = Panic (runtimeError ''integer divide by zero'')"

definition outOfRange :: fault where
  "outOfRange = Panic (runtimeError ''index or slice bounds out of range'')"

text \<open>The calls of \<^verbatim>\<open>log.Error\<close>: with a message and the error as context, or with the
  error's own text as the message. Logging below the error level is not modelled.\<close>

datatype logEntry = ErrorCtx string error | ErrorText error

subsection \<open>Constants\<close>

definition checkpointInterval :: uint64 where "checkpointInterval = 1024"
definition allowFutureBlockTimeSeconds :: int64 where "allowFutureBlockTimeSeconds = 3"
definition extraVanity :: nat where "extraVanity = 32"
definition extraSeal :: nat where "extraSeal = 65"
definition validatorHeaderBytesLength :: nat where "validatorHeaderBytesLength = 20 + 20"

text \<open>\<^verbatim>\<open>types.CalcUncleHash(nil)\<close>, the Keccak-256 hash of the RLP of the empty list.\<close>

definition uncleHash :: hash where
  "uncleHash = 0x1dcc4de8dec75d7aab85b567b6ccd41ad312451b948a7413f0a142fd40d49347"

definition systemAddress :: address where
  "systemAddress = 0xffffFFFfFFffffffffffffffFfFFFfffFFFfFFfE"

text \<open>\<^verbatim>\<open>rpc.LatestBlockNumber\<close> is \<open>-1\<close>; the gas of every call is \<^verbatim>\<open>math.MaxUint64 / 2\<close>.\<close>

definition LatestBlockNumber :: int64 where "LatestBlockNumber = - 1"
definition halfMaxGas :: uint64 where "halfMaxGas = 0x7FFFFFFFFFFFFFFF"

subsection \<open>Helpers for Go's built-ins\<close>

text \<open>\<^verbatim>\<open>xs[lo:hi]\<close>: panics unless \<open>0 \<le> lo \<le> hi \<le> len(xs)\<close>.\<close>

definition slice :: "'a list \<Rightarrow> int \<Rightarrow> int \<Rightarrow> 'a list result" where
  "slice xs lo hi =
     (if 0 \<le> lo \<and> lo \<le> hi \<and> hi \<le> int (length xs)
      then Inr (take (nat hi - nat lo) (drop (nat lo) xs))
      else Inl outOfRange)"

text \<open>Go's \<^verbatim>\<open>%\<close> on signed integers truncates towards zero.\<close>

definition goRem :: "int \<Rightarrow> int \<Rightarrow> int" where
  "goRem a b = sgn a * (\<bar>a\<bar> mod \<bar>b\<bar>)"

text \<open>\<^verbatim>\<open>strconv.FormatUint(n, 10)\<close>.\<close>

fun FormatUint10 :: "nat \<Rightarrow> string" where
  "FormatUint10 n =
     (if n < 10 then [char_of (48 + n)]
      else FormatUint10 (n div 10) @ [char_of (48 + n mod 10)])"

declare FormatUint10.simps [simp del]

text \<open>\<^verbatim>\<open>hex.EncodeToString\<close>.\<close>

definition hexDigit :: "nat \<Rightarrow> char" where
  "hexDigit d = (if d < 10 then char_of (48 + d) else char_of (87 + d))"

definition EncodeToString :: "byte list \<Rightarrow> string" where
  "EncodeToString bs = concat (map (\<lambda>b. [hexDigit (unat b div 16), hexDigit (unat b mod 16)]) bs)"

text \<open>\<^verbatim>\<open>t.Unix()\<close> of an instant and \<^verbatim>\<open>time.Unix(sec, 0)\<close> of a number of seconds.\<close>

definition Unix :: "instant \<Rightarrow> int64" where
  "Unix t = word_of_int (t div 1000000000)"

definition timeUnix :: "int64 \<Rightarrow> instant" where
  "timeUnix sec = sint sec * 1000000000"

subsection \<open>Collaborators\<close>

text \<open>
  Everything bor.go calls and does not define is a parameter. State that outlives a call
  and is not passed in (the two ARC caches, the database, the clock, the log, the chain's
  state-sync slot) lives in a world \<open>'w\<close>, changed only through these operations; the
  \<^verbatim>\<open>state.StateDB\<close> passed to a call is \<open>'st\<close>.
\<close>

record ('w, 'v) ARCCache =
  Get :: "hash \<Rightarrow> 'w \<Rightarrow> 'v option \<times> 'w"
  Add :: "hash \<Rightarrow> 'v \<Rightarrow> 'w \<Rightarrow> 'w"

text \<open>\<^verbatim>\<open>abi.ABI\<close>: \<^verbatim>\<open>Pack\<close>, and \<^verbatim>\<open>UnpackIntoInterface\<close> at the two result shapes used
  (getCurrentSpan: three integers; getBorValidators: addresses and powers).\<close>

record ABI =
  Pack :: "string \<Rightarrow> abiArg list \<Rightarrow> byte list result"
  UnpackSpan :: "byte list \<Rightarrow> (nat \<times> nat \<times> nat) result"
  UnpackValidators :: "byte list \<Rightarrow> (address list \<times> int list) result"

record PublicBlockChainAPI =
  Call :: "TransactionArgs \<Rightarrow> BlockNumberOrHash \<Rightarrow> byte list result"

text \<open>\<^verbatim>\<open>IHeimdallClient\<close>; \<^verbatim>\<open>FetchWithRetry\<close> yields the \<^verbatim>\<open>Result\<close> bytes of the response.\<close>

record IHeimdallClient =
  FetchWithRetry :: "string \<Rightarrow> string \<Rightarrow> byte list result"
  FetchStateSyncEvents :: "uint64 \<Rightarrow> int64 \<Rightarrow> EventRecordWithTime list result"

record 'st GenesisContractsClient =
  LastStateId :: "uint64 \<Rightarrow> nat result"
  CommitState :: "EventRecordWithTime \<Rightarrow> 'st \<Rightarrow> Header \<Rightarrow> unit result \<times> 'st"

text \<open>\<^verbatim>\<open>consensus.ChainHeaderReader\<close>, with what bor.go asks of its \<^verbatim>\<open>Config()\<close>
  (\<^verbatim>\<open>misc.VerifyForkHashes\<close>, \<^verbatim>\<open>IsEIP158\<close>) and the assertion to \<^verbatim>\<open>*core.BlockChain\<close>
  (\<open>None\<close> when the reader is no BlockChain) with its \<^verbatim>\<open>SetStateSync\<close>.\<close>

record 'w ChainHeaderReader =
  GetHeader :: "hash \<Rightarrow> uint64 \<Rightarrow> Header option"
  GetHeaderByNumber :: "uint64 \<Rightarrow> Header option"
  VerifyForkHashes :: "Header \<Rightarrow> error option"
  IsEIP158 :: "nat option \<Rightarrow> bool"
  asBlockChain :: "(StateSyncData list \<Rightarrow> 'w \<Rightarrow> 'w) option"

text \<open>\<^verbatim>\<open>SignerFn\<close>: account, MIME type, data.\<close>

type_synonym SignerFn = "address \<Rightarrow> string \<Rightarrow> byte list \<Rightarrow> byte list result"

text \<open>The engine. \<open>ChainID\<close> is \<^verbatim>\<open>chainConfig.ChainID\<close>; the database is part of the world.\<close>

record ('w, 'st) Bor =
  ChainID :: nat
  config :: BorConfig
  recents :: "('w, Snapshot) ARCCache"
  signatures :: "('w, address) ARCCache"
  signer :: address
  signFn :: "SignerFn option"
  ethAPI :: PublicBlockChainAPI
  GenesisContractsClient :: "'st GenesisContractsClient"
  validatorSetABI :: ABI
  HeimdallClient :: IHeimdallClient
  WithoutHeimdall :: bool
  fakeDiff :: bool

text \<open>The clock and the log.\<close>

record 'w Runtime =
  timeNow :: "'w \<Rightarrow> instant \<times> 'w"
  logError :: "logEntry \<Rightarrow> 'w \<Rightarrow> 'w"

text \<open>snapshot.go and validator.go, which are not part of the sources at hand:
  \<^verbatim>\<open>loadSnapshot\<close>, \<^verbatim>\<open>newSnapshot\<close>, \<^verbatim>\<open>Snapshot.store\<close>, \<^verbatim>\<open>Snapshot.apply\<close>,
  \<^verbatim>\<open>ValidatorSet.HasAddress\<close>, \<^verbatim>\<open>Snapshot.GetSignerSuccessionNumber\<close>,
  \<^verbatim>\<open>Snapshot.Difficulty\<close>.\<close>

record 'w SnapshotPkg =
  loadSnapshot :: "hash \<Rightarrow> 'w \<Rightarrow> Snapshot result"
  newSnapshot :: "uint64 \<Rightarrow> hash \<Rightarrow> Validator list \<Rightarrow> Snapshot"
  store :: "Snapshot \<Rightarrow> 'w \<Rightarrow> unit result \<times> 'w"
  snapApply :: "Snapshot \<Rightarrow> Header list \<Rightarrow> 'w \<Rightarrow> Snapshot result \<times> 'w"
  HasAddress :: "ValidatorSet \<Rightarrow> address \<Rightarrow> bool"
  GetSignerSuccessionNumber :: "Snapshot \<Rightarrow> address \<Rightarrow> int64 result"
  snapDifficulty :: "Snapshot \<Rightarrow> address \<Rightarrow> uint64"

text \<open>\<^verbatim>\<open>Validator.HeaderBytes\<close>, \<^verbatim>\<open>ParseValidators\<close>, \<^verbatim>\<open>sort.Sort(ValidatorsByAddress(vs))\<close>,
  and \<^verbatim>\<open>rlp.EncodeToBytes\<close> of the \<^verbatim>\<open>MinimalVal\<close> of each validator of a list.\<close>

record ValidatorPkg =
  HeaderBytes :: "Validator \<Rightarrow> byte list"
  ParseValidators :: "byte list \<Rightarrow> Validator list result"
  sortByAddress :: "Validator list \<Rightarrow> Validator list"
  encodeMinimalVals :: "Validator list \<Rightarrow> byte list result"

text \<open>\<^verbatim>\<open>Header.Hash\<close>; the Keccak-256 hash and the RLP text of \<^verbatim>\<open>encodeSigHeader\<close> (for an
  extra-data of 65 bytes or more); \<^verbatim>\<open>crypto.Ecrecover\<close> followed by the address of the
  public key; \<^verbatim>\<open>common.HexToAddress\<close>; \<^verbatim>\<open>json.Unmarshal\<close> into a HeimdallSpan;
  \<^verbatim>\<open>types.NewBlock\<close> with no uncles and a fresh trie.\<close>

record Codec =
  HeaderHash :: "Header \<Rightarrow> hash"
  sigHeaderHash :: "Header \<Rightarrow> hash"
  sigHeaderRLP :: "Header \<Rightarrow> byte list"
  recoverSigner :: "hash \<Rightarrow> byte list \<Rightarrow> address result"
  HexToAddress :: "string \<Rightarrow> address"
  unmarshalHeimdallSpan :: "byte list \<Rightarrow> HeimdallSpan result"
  NewBlock :: "Header \<Rightarrow> Transaction list \<Rightarrow> Receipt list \<Rightarrow> Block"

text \<open>\<^verbatim>\<open>vm.BlockContext\<close>, with the fields that are filled from a header: the header
  that \<^verbatim>\<open>GetHashFn\<close> closes over, the beneficiary, and copies of the number, the time and
  the difficulty.\<close>

record BlockContext =
  GetHashRef :: Header
  ctxCoinbase :: address
  BlockNumber :: nat
  ctxTime :: uint64
  ctxDifficulty :: nat

text \<open>The EVM and the state: \<^verbatim>\<open>vm.NewEVM(...).Call\<close> in a block context
  (caller, callee, input, gas, value), \<^verbatim>\<open>StateDB.Finalise\<close>, \<^verbatim>\<open>StateDB.SetCode\<close>,
  \<^verbatim>\<open>StateDB.IntermediateRoot\<close>, and the JSON round trip of \<^verbatim>\<open>decodeGenesisAlloc\<close>
  (the accounts with their code).\<close>

record 'st StatePkg =
  evmCall :: "BlockContext \<Rightarrow> address \<Rightarrow> address \<Rightarrow> byte list \<Rightarrow> uint64 \<Rightarrow> nat \<Rightarrow> 'st \<Rightarrow> error option \<times> 'st"
  Finalise :: "bool \<Rightarrow> 'st \<Rightarrow> 'st"
  SetCode :: "address \<Rightarrow> byte list \<Rightarrow> 'st \<Rightarrow> 'st"
  IntermediateRoot :: "bool \<Rightarrow> 'st \<Rightarrow> hash \<times> 'st"
  jsonGenesisAlloc :: "string \<Rightarrow> (address \<times> byte list) list result"

record ('w, 'st) Env =
  rt :: "'w Runtime"
  snapPkg :: "'w SnapshotPkg"
  valPkg :: ValidatorPkg
  codec :: Codec
  statePkg :: "'st StatePkg"

subsection \<open>CalcProducerDelay\<close>

definition CalcProducerDelay :: "uint64 \<Rightarrow> int64 \<Rightarrow> BorConfig \<Rightarrow> uint64 result" where
  "CalcProducerDelay number succession c =
     (if Sprint c = 0 then Inl divideByZero
      else
        let delay = (if number mod Sprint c = 0 then ProducerDelay c else Period c)
        in Inr (if 0 <s succession then delay + succession * BackupMultiplier c else delay))"

subsection \<open>needToCommitSpan\<close>

definition needToCommitSpan :: "BorConfig \<Rightarrow> Span option \<Rightarrow> uint64 \<Rightarrow> bool" where
  "needToCommitSpan c span headerNumber =
     (case span of
        None \<Rightarrow> False
      | Some s \<Rightarrow>
          if EndBlock s = 0 then True
          else if Sprint c < EndBlock s \<and> EndBlock s - Sprint c + 1 = headerNumber then True
          else False)"

subsection \<open>Contract reads\<close>

definition makeValidators :: "address list \<Rightarrow> int list \<Rightarrow> Validator list result" where
  "makeValidators ret0 ret1 =
     (if length ret1 < length ret0 then Inl outOfRange
      else Inr (map (\<lambda>(a, p). \<lparr>valID = 0, Address = a, VotingPower = word_of_int p,
                               ProposerPriority = 0\<rparr>) (zip ret0 ret1)))"

definition GetCurrentSpan ::
  "('w, 'st) Bor \<Rightarrow> ('w, 'st) Env \<Rightarrow> hash \<Rightarrow> 'w \<Rightarrow> Span result \<times> 'w" where
  "GetCurrentSpan c E headerHash w =
     (let blockNr = WithHash headerHash False in
      (case Pack (validatorSetABI c) ''getCurrentSpan'' [] of
        Inl (Err err) \<Rightarrow>
          (Inl (Err err),
           logError (rt E) (ErrorCtx ''Unable to pack tx for getCurrentSpan'' err) w)
      | Inl (Panic p) \<Rightarrow> (Inl (Panic p), w)
      | Inr data \<Rightarrow>
          let toAddress = HexToAddress (codec E) (ValidatorContract (config c)) in
          (case Call (ethAPI c) \<lparr>txGas = halfMaxGas, txTo = toAddress, txData = data\<rparr> blockNr of
             Inl f \<Rightarrow> (Inl f, w)
           | Inr res \<Rightarrow>
               (case UnpackSpan (validatorSetABI c) res of
                  Inl f \<Rightarrow> (Inl f, w)
                | Inr (n, sb, eb) \<Rightarrow>
                    (Inr \<lparr>spanID = word_of_nat n, StartBlock = word_of_nat sb,
                          EndBlock = word_of_nat eb\<rparr>, w)))))"

definition GetCurrentValidators ::
  "('w, 'st) Bor \<Rightarrow> ('w, 'st) Env \<Rightarrow> hash \<Rightarrow> uint64 \<Rightarrow> 'w \<Rightarrow> Validator list result \<times> 'w" where
  "GetCurrentValidators c E headerHash blockNumber w =
     (let blockNr = WithHash headerHash False in
      (case Pack (validatorSetABI c) ''getBorValidators'' [abiUint (unat blockNumber)] of
        Inl (Err err) \<Rightarrow>
          (Inl (Err err), logError (rt E) (ErrorCtx ''Unable to pack tx for getValidator'' err) w)
      | Inl (Panic p) \<Rightarrow> (Inl (Panic p), w)
      | Inr data \<Rightarrow>
          let toAddress = HexToAddress (codec E) (ValidatorContract (config c)) in
          (case Call (ethAPI c) \<lparr>txGas = halfMaxGas, txTo = toAddress, txData = data\<rparr> blockNr of
             Inl (Err err) \<Rightarrow> (Inl (Panic (panicValue err)), w)
           | Inl (Panic p) \<Rightarrow> (Inl (Panic p), w)
           | Inr res \<Rightarrow>
               (case UnpackValidators (validatorSetABI c) res of
                  Inl f \<Rightarrow> (Inl f, w)
                | Inr (ret0, ret1) \<Rightarrow> (makeValidators ret0 ret1, w)))))"

definition GetCurrentValidatorsByBlockNrOrHash ::
  "('w, 'st) Bor \<Rightarrow> ('w, 'st) Env \<Rightarrow> BlockNumberOrHash \<Rightarrow> uint64 \<Rightarrow> 'w
     \<Rightarrow> Validator list result \<times> 'w" where
  "GetCurrentValidatorsByBlockNrOrHash c E blockNrOrHash blockNumber w =
     (case Pack (validatorSetABI c) ''getBorValidators'' [abiUint (unat blockNumber)] of
        Inl (Err err) \<Rightarrow>
          (Inl (Err err), logError (rt E) (ErrorCtx ''Unable to pack tx for getValidator'' err) w)
      | Inl (Panic p) \<Rightarrow> (Inl (Panic p), w)
      | Inr data \<Rightarrow>
          let toAddress = HexToAddress (codec E) (ValidatorContract (config c)) in
          (case Call (ethAPI c) \<lparr>txGas = halfMaxGas, txTo = toAddress, txData = data\<rparr>
                  blockNrOrHash of
             Inl f \<Rightarrow> (Inl f, w)
           | Inr res \<Rightarrow>
               (case UnpackValidators (validatorSetABI c) res of
                  Inl f \<Rightarrow> (Inl f, w)
                | Inr (ret0, ret1) \<Rightarrow> (makeValidators ret0 ret1, w))))"

subsection \<open>snapshot\<close>

text \<open>
  The search loop of \<^verbatim>\<open>snapshot\<close>: it ends with the snapshot found and the headers
  gathered on the way (newest first), or with an error. Nothing bounds the walk when the
  chain has no block 0, so the loop is a partial function: \<open>None\<close> is a walk that never
  ends. The caches hold snapshots, never nil.
\<close>

partial_function (option) snapshotSearch ::
  "('w, 'st) Bor \<Rightarrow> ('w, 'st) Env \<Rightarrow> 'w ChainHeaderReader \<Rightarrow> uint64 \<Rightarrow> hash \<Rightarrow> Header list
     \<Rightarrow> Header list \<Rightarrow> 'w \<Rightarrow> ((Snapshot \<times> Header list) result \<times> 'w) option" where
  "snapshotSearch c E chain number hash parents headers w =
     (case Get (recents c) hash w of
        (Some s, w1) \<Rightarrow> Some (Inr (s, headers), w1)
      | (None, w1) \<Rightarrow>
          (case (if number mod checkpointInterval = 0
                 then loadSnapshot (snapPkg E) hash w1 else Inl (Err (errorString ''not loaded''))) of
             Inr s \<Rightarrow> Some (Inr (s, headers), w1)
           | Inl (Panic p) \<Rightarrow> Some (Inl (Panic p), w1)
           | Inl (Err _) \<Rightarrow>
               (case (if number = 0 then GetHeaderByNumber chain number else None) of
                  Some checkpoint \<Rightarrow>
                    (case GetCurrentValidators c E (HeaderHash (codec E) checkpoint) (number + 1) w1 of
                       (Inl f, w2) \<Rightarrow> Some (Inl f, w2)
                     | (Inr validators, w2) \<Rightarrow>
                         (case store (snapPkg E)
                                 (newSnapshot (snapPkg E) number (HeaderHash (codec E) checkpoint)
                                    validators) w2 of
                            (Inl f, w3) \<Rightarrow> Some (Inl f, w3)
                          | (Inr _, w3) \<Rightarrow>
                              Some (Inr (newSnapshot (snapPkg E) number
                                           (HeaderHash (codec E) checkpoint) validators,
                                         headers), w3)))
                | None \<Rightarrow>
                    (if parents \<noteq> [] then
                       (if HeaderHash (codec E) (last parents) \<noteq> hash
                        then Some (Inl (Err ErrUnknownAncestor), w1)
                        else
                          (case Number (last parents) of
                             None \<Rightarrow> Some (Inl nilDereference, w1)
                           | Some n \<Rightarrow>
                               if word_of_nat n \<noteq> number
                               then Some (Inl (Err ErrUnknownAncestor), w1)
                               else snapshotSearch c E chain (number - 1)
                                      (ParentHash (last parents)) (butlast parents)
                                      (headers @ [last parents]) w1))
                     else
                       (case GetHeader chain hash number of
                          None \<Rightarrow> Some (Inl (Err ErrUnknownAncestor), w1)
                        | Some header \<Rightarrow>
                            snapshotSearch c E chain (number - 1) (ParentHash header) []
                              (headers @ [header]) w1)))))"

declare snapshotSearch.simps [code]

text \<open>The collected headers are reversed in place, applied to the snapshot found, and the
  result is cached and, at a checkpoint, stored.\<close>

definition snapshot ::
  "('w, 'st) Bor \<Rightarrow> ('w, 'st) Env \<Rightarrow> 'w ChainHeaderReader \<Rightarrow> uint64 \<Rightarrow> hash \<Rightarrow> Header list
     \<Rightarrow> 'w \<Rightarrow> (Snapshot result \<times> 'w) option" where
  "snapshot c E chain number hash parents w =
     (case snapshotSearch c E chain number hash parents [] w of
        None \<Rightarrow> None
      | Some (Inl f, w1) \<Rightarrow> Some (Inl f, w1)
      | Some (Inr (snap0, headers), w1) \<Rightarrow>
          (case snapApply (snapPkg E) snap0 (rev headers) w1 of
             (Inl f, w2) \<Rightarrow> Some (Inl f, w2)
           | (Inr snap, w2) \<Rightarrow>
               let w3 = Add (recents c) (snapHash snap) snap w2 in
               if snapNumber snap mod checkpointInterval = 0 \<and> 0 < length headers then
                 (case store (snapPkg E) snap w3 of
                    (Inl f, w4) \<Rightarrow> Some (Inl f, w4)
                  | (Inr _, w4) \<Rightarrow> Some (Inr snap, w4))
               else Some (Inr snap, w3)))"

subsection \<open>ecrecover\<close>

definition ecrecover ::
  "('w, 'st) Bor \<Rightarrow> ('w, 'st) Env \<Rightarrow> Header \<Rightarrow> 'w \<Rightarrow> address result \<times> 'w" where
  "ecrecover c E header w =
     (let hash = HeaderHash (codec E) header in
      case Get (signatures c) hash w of
        (Some addr, w1) \<Rightarrow> (Inr addr, w1)
      | (None, w1) \<Rightarrow>
          if length (Extra header) < extraSeal then (Inl (Err errMissingSignature), w1)
          else
            let signature = drop (length (Extra header) - extraSeal) (Extra header) in
            (case recoverSigner (codec E) (sigHeaderHash (codec E) header) signature of
               Inl f \<Rightarrow> (Inl f, w1)
             | Inr sg \<Rightarrow> (Inr sg, Add (signatures c) hash sg w1)))"

text \<open>\<^verbatim>\<open>BorRLP\<close>: \<^verbatim>\<open>encodeSigHeader\<close> panics when the extra-data is shorter than 65 bytes.\<close>

definition BorRLP :: "('w, 'st) Env \<Rightarrow> Header \<Rightarrow> byte list result" where
  "BorRLP E header =
     (if length (Extra header) < 65 then Inl outOfRange
      else Inr (sigHeaderRLP (codec E) header))"

subsection \<open>Header verification\<close>

definition isSprintStart :: "uint64 \<Rightarrow> uint64 \<Rightarrow> bool result" where
  "isSprintStart number sprint =
     (if sprint = 0 then Inl divideByZero else Inr (number mod sprint = 0))"

definition validateHeaderExtraField :: "byte list \<Rightarrow> error option" where
  "validateHeaderExtraField extraBytes =
     (if length extraBytes < extraVanity then Some errMissingVanity
      else if length extraBytes < extraVanity + extraSeal then Some errMissingSignature
      else None)"

definition verifySeal ::
  "('w, 'st) Bor \<Rightarrow> ('w, 'st) Env \<Rightarrow> 'w ChainHeaderReader \<Rightarrow> Header \<Rightarrow> Header list \<Rightarrow> 'w
     \<Rightarrow> (unit result \<times> 'w) option" where
  "verifySeal c E chain header parents w =
     (case Number header of
        None \<Rightarrow> Some (Inl nilDereference, w)
      | Some n \<Rightarrow>
          let number = (word_of_nat n :: uint64) in
          if number = 0 then Some (Inl (Err errUnknownBlock), w)
          else
            (case snapshot c E chain (number - 1) (ParentHash header) parents w of
               None \<Rightarrow> None
             | Some (Inl f, w1) \<Rightarrow> Some (Inl f, w1)
             | Some (Inr snap, w1) \<Rightarrow>
                 (case ecrecover c E header w1 of
                    (Inl f, w2) \<Rightarrow> Some (Inl f, w2)
                  | (Inr sg, w2) \<Rightarrow>
                      if \<not> HasAddress (snapPkg E) (snapValidatorSet snap) sg
                      then Some (Inl (Err (UnauthorizedSignerError (number - 1) sg)), w2)
                      else
                        (case GetSignerSuccessionNumber (snapPkg E) snap sg of
                           Inl f \<Rightarrow> Some (Inl f, w2)
                         | Inr succession \<Rightarrow>
                             let parent =
                               (if parents \<noteq> [] then Some (last parents)
                                else if 0 < number
                                then GetHeader chain (ParentHash header) (number - 1)
                                else None)
                             in
                             (case (case parent of
                                      None \<Rightarrow> Inr False
                                    | Some p \<Rightarrow>
                                        (case CalcProducerDelay number succession (config c) of
                                           Inl f \<Rightarrow> Inl f
                                         | Inr d \<Rightarrow> Inr (Time header < Time p + d))) of
                                Inl f \<Rightarrow> Some (Inl f, w2)
                              | Inr True \<Rightarrow>
                                  Some (Inl (Err (BlockTooSoonError number succession)), w2)
                              | Inr False \<Rightarrow>
                                  if \<not> fakeDiff c then
                                    (case Difficulty header of
                                       None \<Rightarrow> Some (Inl nilDereference, w2)
                                     | Some d \<Rightarrow>
                                         if word_of_nat d \<noteq> snapDifficulty (snapPkg E) snap sg
                                         then Some (Inl (Err (WrongDifficultyError number
                                                 (snapDifficulty (snapPkg E) snap sg)
                                                 (word_of_nat d) sg)), w2)
                                         else Some (Inr (), w2))
                                  else Some (Inr (), w2))))))"

text \<open>\<^verbatim>\<open>copy(dst[off:], src)\<close> on a destination of fixed length.\<close>

definition copyAt :: "'a list \<Rightarrow> nat \<Rightarrow> 'a list \<Rightarrow> 'a list" where
  "copyAt dst off src =
     take off dst @ take (length dst - off) src @ drop (off + length src) dst"

fun fillValidatorBytes :: "ValidatorPkg \<Rightarrow> byte list \<Rightarrow> nat \<Rightarrow> Validator list \<Rightarrow> byte list" where
  "fillValidatorBytes V bs i [] = bs"
| "fillValidatorBytes V bs i (v # vs) =
     fillValidatorBytes V (copyAt bs (i * validatorHeaderBytesLength) (HeaderBytes V v))
       (Suc i) vs"

definition verifyCascadingFields ::
  "('w, 'st) Bor \<Rightarrow> ('w, 'st) Env \<Rightarrow> 'w ChainHeaderReader \<Rightarrow> Header \<Rightarrow> Header list \<Rightarrow> 'w
     \<Rightarrow> (unit result \<times> 'w) option" where
  "verifyCascadingFields c E chain header parents w =
     (case Number header of
        None \<Rightarrow> Some (Inl nilDereference, w)
      | Some n \<Rightarrow>
          let number = (word_of_nat n :: uint64) in
          if number = 0 then Some (Inr (), w)
          else
            (case (if parents \<noteq> [] then Some (last parents)
                   else GetHeader chain (ParentHash header) (number - 1)) of
               None \<Rightarrow> Some (Inl (Err ErrUnknownAncestor), w)
             | Some parent \<Rightarrow>
                 (case Number parent of
                    None \<Rightarrow> Some (Inl nilDereference, w)
                  | Some pn \<Rightarrow>
                      if \<not> (word_of_nat pn = number - 1
                            \<and> HeaderHash (codec E) parent = ParentHash header)
                      then Some (Inl (Err ErrUnknownAncestor), w)
                      else if Time header < Time parent + Period (config c)
                      then Some (Inl (Err ErrInvalidTimestamp), w)
                      else
                        (case snapshot c E chain (number - 1) (ParentHash header) parents w of
                           None \<Rightarrow> None
                         | Some (Inl f, w1) \<Rightarrow> Some (Inl f, w1)
                         | Some (Inr snap, w1) \<Rightarrow>
                             (case (case isSprintStart (number + 1) (Sprint (config c)) of
                                      Inl f \<Rightarrow> (Inl f, w1)
                                    | Inr False \<Rightarrow> (Inr (), w1)
                                    | Inr True \<Rightarrow>
                                        (case GetCurrentValidatorsByBlockNrOrHash c E
                                                (WithNumber LatestBlockNumber) (number + 1) w1 of
                                           (Inl f, w2) \<Rightarrow> (Inl f, w2)
                                         | (Inr newValidators, w2) \<Rightarrow>
                                             (case slice (Extra header) (int extraVanity)
                                                     (int (length (Extra header)) - int extraSeal) of
                                                Inl f \<Rightarrow> (Inl f, w2)
                                              | Inr region \<Rightarrow>
                                                  (case ParseValidators (valPkg E) region of
                                                     Inl f \<Rightarrow> (Inl f, w2)
                                                   | Inr headerVals \<Rightarrow>
                                                       if length (sortByAddress (valPkg E) newValidators)
                                                            \<noteq> length headerVals
                                                       then (Inl (Err errInvalidSpanValidators), w2)
                                                       else if list_ex
                                                            (\<lambda>(val, hv). HeaderBytes (valPkg E) val
                                                                \<noteq> HeaderBytes (valPkg E) hv)
                                                            (zip (sortByAddress (valPkg E) newValidators)
                                                               headerVals)
                                                       then (Inl (Err errInvalidSpanValidators), w2)
                                                       else (Inr (), w2))))) of
                                (Inl f, w2) \<Rightarrow> Some (Inl f, w2)
                              | (Inr _, w2) \<Rightarrow>
                                  (case (case isSprintStart number (Sprint (config c)) of
                                           Inl f \<Rightarrow> Inl f
                                         | Inr False \<Rightarrow> Inr ()
                                         | Inr True \<Rightarrow>
                                             (case slice (Extra parent) (int extraVanity)
                                                     (int (length (Extra parent)) - int extraSeal) of
                                                Inl f \<Rightarrow> Inl f
                                              | Inr parentValidatorBytes \<Rightarrow>
                                                  let validatorsBytes =
                                                    fillValidatorBytes (valPkg E)
                                                      (replicate
                                                         (length (Validators (snapValidatorSet snap))
                                                            * validatorHeaderBytesLength) 0)
                                                      0
                                                      (sortByAddress (valPkg E)
                                                         (Validators (snapValidatorSet snap)))
                                                  in
                                                  if parentValidatorBytes \<noteq> validatorsBytes
                                                  then Inl (Err (MismatchingValidatorsError (number - 1)
                                                          validatorsBytes parentValidatorBytes))
                                                  else Inr ())) of
                                     Inl f \<Rightarrow> Some (Inl f, w2)
                                   | Inr _ \<Rightarrow> verifySeal c E chain header parents w2))))))"

definition verifyHeader ::
  "('w, 'st) Bor \<Rightarrow> ('w, 'st) Env \<Rightarrow> 'w ChainHeaderReader \<Rightarrow> Header \<Rightarrow> Header list \<Rightarrow> 'w
     \<Rightarrow> (unit result \<times> 'w) option" where
  "verifyHeader c E chain header parents w =
     (case Number header of
        None \<Rightarrow> Some (Inl (Err errUnknownBlock), w)
      | Some n \<Rightarrow>
          let number = (word_of_nat n :: uint64) in
          (case timeNow (rt E) w of
             (now, w1) \<Rightarrow>
               if Unix now + allowFutureBlockTimeSeconds < Time header
               then Some (Inl (Err ErrFutureBlock), w1)
               else
                 (case validateHeaderExtraField (Extra header) of
                    Some err \<Rightarrow> Some (Inl (Err err), w1)
                  | None \<Rightarrow>
                      if Sprint (config c) = 0 then Some (Inl divideByZero, w1)
                      else
                        let isSprintEnd = ((number + 1) mod Sprint (config c) = 0);
                            signersBytes = int (length (Extra header)) - int extraVanity
                                             - int extraSeal
                        in
                        if \<not> isSprintEnd \<and> signersBytes \<noteq> 0
                        then Some (Inl (Err errExtraValidators), w1)
                        else if isSprintEnd
                                \<and> goRem signersBytes (int validatorHeaderBytesLength) \<noteq> 0
                        then Some (Inl (Err errInvalidSpanValidators), w1)
                        else if MixDigest header \<noteq> 0
                        then Some (Inl (Err errInvalidMixDigest), w1)
                        else if UncleHash header \<noteq> uncleHash
                        then Some (Inl (Err errInvalidUncleHash), w1)
                        else if 0 < number \<and> Difficulty header = None
                        then Some (Inl (Err errInvalidDifficulty), w1)
                        else
                          (case VerifyForkHashes chain header of
                             Some err \<Rightarrow> Some (Inl (Err err), w1)
                           | None \<Rightarrow> verifyCascadingFields c E chain header parents w1))))"

subsection \<open>Prepare\<close>

text \<open>The header is changed in place, so it is returned on every path, with the fields
  set up to that point.\<close>

definition Prepare ::
  "('w, 'st) Bor \<Rightarrow> ('w, 'st) Env \<Rightarrow> 'w ChainHeaderReader \<Rightarrow> Header \<Rightarrow> 'w
     \<Rightarrow> (unit result \<times> Header \<times> 'w) option" where
  "Prepare c E chain header0 w =
     (let header1 = header0\<lparr>Coinbase := 0, Nonce := 0\<rparr> in
      (case Number header1 of
         None \<Rightarrow> Some (Inl nilDereference, header1, w)
       | Some n \<Rightarrow>
           let number = (word_of_nat n :: uint64) in
           (case snapshot c E chain (number - 1) (ParentHash header1) [] w of
              None \<Rightarrow> None
            | Some (Inl f, w1) \<Rightarrow> Some (Inl f, header1, w1)
            | Some (Inr snap, w1) \<Rightarrow>
                let header2 = header1\<lparr>Difficulty :=
                                Some (unat (snapDifficulty (snapPkg E) snap (signer c)))\<rparr>;
                    header3 = (if length (Extra header2) < extraVanity
                               then header2\<lparr>Extra := Extra header2
                                      @ replicate (extraVanity - length (Extra header2)) 0\<rparr>
                               else header2);
                    header4 = header3\<lparr>Extra := take extraVanity (Extra header3)\<rparr>
                in
                if Sprint (config c) = 0 then Some (Inl divideByZero, header4, w1)
                else
                  (case (if (number + 1) mod Sprint (config c) = 0 then
                           (case GetCurrentValidators c E (ParentHash header4) (number + 1) w1 of
                              (Inl (Err err), w2) \<Rightarrow>
                                (Inl (Err (errorString ''unknown validators'')), header4, w2)
                            | (Inl (Panic p), w2) \<Rightarrow> (Inl (Panic p), header4, w2)
                            | (Inr newValidators, w2) \<Rightarrow>
                                (Inr (),
                                 header4\<lparr>Extra := Extra header4
                                    @ concat (map (HeaderBytes (valPkg E))
                                                (sortByAddress (valPkg E) newValidators))\<rparr>,
                                 w2))
                         else (Inr (), header4, w1)) of
                     (Inl f, header5, w2) \<Rightarrow> Some (Inl f, header5, w2)
                   | (Inr _, header5, w2) \<Rightarrow>
                       let header6 = header5\<lparr>Extra := Extra header5 @ replicate extraSeal 0\<rparr>;
                           header7 = header6\<lparr>MixDigest := 0\<rparr>
                       in
                       (case GetHeader chain (ParentHash header7) (number - 1) of
                          None \<Rightarrow> Some (Inl (Err ErrUnknownAncestor), header7, w2)
                        | Some parent \<Rightarrow>
                            (case (if signer c \<noteq> 0
                                   then GetSignerSuccessionNumber (snapPkg E) snap (signer c)
                                   else Inr 0) of
                               Inl f \<Rightarrow> Some (Inl f, header7, w2)
                             | Inr succession \<Rightarrow>
                                 (case CalcProducerDelay number succession (config c) of
                                    Inl f \<Rightarrow> Some (Inl f, header7, w2)
                                  | Inr delay \<Rightarrow>
                                      let header8 = header7\<lparr>Time := Time parent + delay\<rparr> in
                                      (case timeNow (rt E) w2 of
                                         (now1, w3) \<Rightarrow>
                                           if Time header8 < Unix now1 then
                                             (case timeNow (rt E) w3 of
                                                (now2, w4) \<Rightarrow>
                                                  Some (Inr (), header8\<lparr>Time := Unix now2\<rparr>, w4))
                                           else Some (Inr (), header8, w3)))))))))"

subsection \<open>Seal\<close>

text \<open>
  \<^verbatim>\<open>Seal\<close> returns after starting a goroutine that waits for the delay or the stop signal
  and then offers the sealed block to the results channel. A \<open>SealTask\<close> is that
  goroutine; a call that starts none returns \<open>None\<close> for it. \<open>emitted\<close> is what the
  results channel receives, given which case of each of the two selects fires.
\<close>

record SealTask =
  taskDelay :: int
  taskBlock :: Block

definition emitted :: "SealTask option \<Rightarrow> bool \<Rightarrow> bool \<Rightarrow> Block option" where
  "emitted task stopFirst receiverReady =
     (case task of
        None \<Rightarrow> None
      | Some t \<Rightarrow> if stopFirst then None else if receiverReady then Some (taskBlock t) else None)"

text \<open>\<^verbatim>\<open>t.Sub(u)\<close>: a Duration, saturating at the ends of int64.\<close>

definition timeSub :: "instant \<Rightarrow> instant \<Rightarrow> int" where
  "timeSub t u = max (- (2 ^ 63)) (min (2 ^ 63 - 1) (t - u))"

text \<open>\<^verbatim>\<open>block.Header()\<close> is \<^verbatim>\<open>types.CopyHeader\<close> of the block's header: a copy in which a
  nil difficulty or number is replaced by zero.\<close>

definition CopyHeader :: "Header \<Rightarrow> Header" where
  "CopyHeader h =
     h\<lparr>Difficulty := Some (case Difficulty h of None \<Rightarrow> 0 | Some d \<Rightarrow> d),
       Number := Some (case Number h of None \<Rightarrow> 0 | Some n \<Rightarrow> n)\<rparr>"

definition MimetypeBor :: string where
  "MimetypeBor = ''application/x-bor-header''"

definition Seal ::
  "('w, 'st) Bor \<Rightarrow> ('w, 'st) Env \<Rightarrow> 'w ChainHeaderReader \<Rightarrow> Block \<Rightarrow> 'w
     \<Rightarrow> (unit result \<times> SealTask option \<times> 'w) option" where
  "Seal c E chain block w =
     (let header = CopyHeader (blockHeader block) in
      (case Number header of
         None \<Rightarrow> Some (Inl nilDereference, None, w)
       | Some n \<Rightarrow>
           let number = (word_of_nat n :: uint64) in
           if number = 0 then Some (Inl (Err errUnknownBlock), None, w)
           else if Period (config c) = 0 \<and> length (Transactions block) = 0
           then Some (Inr (), None, w)
           else
             (case snapshot c E chain (number - 1) (ParentHash header) [] w of
                None \<Rightarrow> None
              | Some (Inl f, w1) \<Rightarrow> Some (Inl f, None, w1)
              | Some (Inr snap, w1) \<Rightarrow>
                  if \<not> HasAddress (snapPkg E) (snapValidatorSet snap) (signer c)
                  then Some (Inl (Err (UnauthorizedSignerError (number - 1) (signer c))), None, w1)
                  else
                    (case GetSignerSuccessionNumber (snapPkg E) snap (signer c) of
                       Inl f \<Rightarrow> Some (Inl f, None, w1)
                     | Inr successionNumber \<Rightarrow>
                         (case timeNow (rt E) w1 of
                            (now, w2) \<Rightarrow>
                              let delay = timeSub (timeUnix (Time header)) now in
                              (case BorRLP E header of
                                 Inl f \<Rightarrow> Some (Inl f, None, w2)
                               | Inr rlp \<Rightarrow>
                                   (case signFn c of
                                      None \<Rightarrow> Some (Inl nilDereference, None, w2)
                                    | Some sign \<Rightarrow>
                                        (case sign (signer c) MimetypeBor rlp of
                                           Inl f \<Rightarrow> Some (Inl f, None, w2)
                                         | Inr sighash \<Rightarrow>
                                             let sealed = header\<lparr>Extra :=
                                                   copyAt (Extra header)
                                                     (length (Extra header) - extraSeal) sighash\<rparr>
                                             in
                                             Some (Inr (),
                                                   Some \<lparr>taskDelay = delay,
                                                         taskBlock = block\<lparr>blockHeader := sealed\<rparr>\<rparr>,
                                                   w2)))))))))"

subsection \<open>System messages\<close>

definition getSystemMessage :: "address \<Rightarrow> byte list \<Rightarrow> callmsg" where
  "getSystemMessage toAddress data =
     \<lparr>msgFrom = systemAddress, msgTo = Some toAddress, msgGas = halfMaxGas, msgGasPrice = 0,
      msgValue = 0, msgData = data\<rparr>"

text \<open>
  \<^verbatim>\<open>core.NewEVMBlockContext(header, chain, author)\<close> belongs to package \<^verbatim>\<open>core\<close>. With an
  author given it reads only the header: \<^verbatim>\<open>new(big.Int).Set(header.Number)\<close> and
  \<^verbatim>\<open>new(big.Int).Set(header.Difficulty)\<close> dereference the two pointers, so a header with a
  nil number or a nil difficulty panics here.
\<close>

definition NewEVMBlockContext :: "Header \<Rightarrow> address \<Rightarrow> BlockContext result" where
  "NewEVMBlockContext header author =
     (case Number header of
        None \<Rightarrow> Inl nilDereference
      | Some n \<Rightarrow>
          (case Difficulty header of
             None \<Rightarrow> Inl nilDereference
           | Some d \<Rightarrow>
               Inr \<lparr>GetHashRef = header, ctxCoinbase = author, BlockNumber = n,
                     ctxTime = Time header, ctxDifficulty = d\<rparr>))"

text \<open>The block context is built before the EVM, and the EVM before the call; the state is
  touched by the call and by \<^verbatim>\<open>Finalise\<close> only.\<close>

definition applyMessage ::
  "('w, 'st) Env \<Rightarrow> callmsg \<Rightarrow> 'st \<Rightarrow> Header \<Rightarrow> unit result \<times> 'st" where
  "applyMessage E msg state header =
     (case NewEVMBlockContext header (Coinbase header) of
        Inl f \<Rightarrow> (Inl f, state)
      | Inr blockContext \<Rightarrow>
          (case msgTo msg of
             None \<Rightarrow> (Inl nilDereference, state)
           | Some to \<Rightarrow>
               (case evmCall (statePkg E) blockContext (msgFrom msg) to (msgData msg) (msgGas msg)
                       (msgValue msg) state of
                  (err, state1) \<Rightarrow>
                    (Inr (),
                     if err \<noteq> None then Finalise (statePkg E) True state1 else state1))))"

subsection \<open>Span commit\<close>

definition getNextHeimdallSpanForTest ::
  "('w, 'st) Bor \<Rightarrow> ('w, 'st) Env \<Rightarrow> uint64 \<Rightarrow> Header \<Rightarrow> 'w ChainHeaderReader \<Rightarrow> 'w
     \<Rightarrow> (HeimdallSpan result \<times> 'w) option" where
  "getNextHeimdallSpanForTest c E newSpanID header chain w =
     (case Number header of
        None \<Rightarrow> Some (Inl nilDereference, w)
      | Some n \<Rightarrow>
          let headerNumber = (word_of_nat n :: uint64) in
          (case GetCurrentSpan c E (ParentHash header) w of
             (Inl f, w1) \<Rightarrow> Some (Inl f, w1)
           | (Inr span0, w1) \<Rightarrow>
               (case snapshot c E chain (headerNumber - 1) (ParentHash header) [] w1 of
                  None \<Rightarrow> None
                | Some (Inl f, w2) \<Rightarrow> Some (Inl f, w2)
                | Some (Inr snap, w2) \<Rightarrow>
                    let span1 = span0\<lparr>spanID := newSpanID\<rparr>;
                        span2 = (if EndBlock span1 = 0 then span1\<lparr>StartBlock := 256\<rparr>
                                 else span1\<lparr>StartBlock := EndBlock span1 + 1\<rparr>);
                        span3 = span2\<lparr>EndBlock :=
                                  StartBlock span2 + 100 * Sprint (config c) - 1\<rparr>
                    in
                    Some (Inr \<lparr>hsSpan = span3, hsValidatorSet = snapValidatorSet snap,
                                SelectedProducers = Validators (snapValidatorSet snap),
                                hsChainID = FormatUint10 (ChainID c)\<rparr>, w2))))"

definition spanPath :: "uint64 \<Rightarrow> string" where
  "spanPath newSpanID = ''bor/span/'' @ FormatUint10 (unat newSpanID)"

definition fetchAndCommitSpan ::
  "('w, 'st) Bor \<Rightarrow> ('w, 'st) Env \<Rightarrow> uint64 \<Rightarrow> 'st \<Rightarrow> Header \<Rightarrow> 'w ChainHeaderReader \<Rightarrow> 'w
     \<Rightarrow> (unit result \<times> 'st \<times> 'w) option" where
  "fetchAndCommitSpan c E newSpanID state header chain w =
     (case (if WithoutHeimdall c then getNextHeimdallSpanForTest c E newSpanID header chain w
            else
              Some (case FetchWithRetry (HeimdallClient c) (spanPath newSpanID) [] of
                      Inl f \<Rightarrow> Inl f
                    | Inr response \<Rightarrow> unmarshalHeimdallSpan (codec E) response, w)) of
        None \<Rightarrow> None
      | Some (Inl f, w1) \<Rightarrow> Some (Inl f, state, w1)
      | Some (Inr heimdallSpan, w1) \<Rightarrow>
          if hsChainID heimdallSpan \<noteq> FormatUint10 (ChainID c)
          then Some (Inl (Err (errorf
                  ''Chain id proposed span, %s, and bor chain id, %s, doesn't match''
                  [hsChainID heimdallSpan, FormatUint10 (ChainID c)])), state, w1)
          else
            (case encodeMinimalVals (valPkg E) (Validators (hsValidatorSet heimdallSpan)) of
               Inl f \<Rightarrow> Some (Inl f, state, w1)
             | Inr validatorBytes \<Rightarrow>
                 (case encodeMinimalVals (valPkg E) (SelectedProducers heimdallSpan) of
                    Inl f \<Rightarrow> Some (Inl f, state, w1)
                  | Inr producerBytes \<Rightarrow>
                      (case Pack (validatorSetABI c) ''commitSpan''
                              [abiUint (unat (spanID (hsSpan heimdallSpan))),
                               abiUint (unat (StartBlock (hsSpan heimdallSpan))),
                               abiUint (unat (EndBlock (hsSpan heimdallSpan))),
                               abiBytes validatorBytes, abiBytes producerBytes] of
                         Inl (Err err) \<Rightarrow>
                           Some (Inl (Err err), state,
                                 logError (rt E) (ErrorCtx ''Unable to pack tx for commitSpan'' err) w1)
                       | Inl (Panic p) \<Rightarrow> Some (Inl (Panic p), state, w1)
                       | Inr data \<Rightarrow>
                           (case applyMessage E
                                   (getSystemMessage
                                      (HexToAddress (codec E) (ValidatorContract (config c))) data)
                                   state header of
                              (r, state1) \<Rightarrow> Some (r, state1, w1))))))"

definition checkAndCommitSpan ::
  "('w, 'st) Bor \<Rightarrow> ('w, 'st) Env \<Rightarrow> 'st \<Rightarrow> Header \<Rightarrow> 'w ChainHeaderReader \<Rightarrow> 'w
     \<Rightarrow> (unit result \<times> 'st \<times> 'w) option" where
  "checkAndCommitSpan c E state header chain w =
     (case Number header of
        None \<Rightarrow> Some (Inl nilDereference, state, w)
      | Some n \<Rightarrow>
          let headerNumber = (word_of_nat n :: uint64) in
          (case GetCurrentSpan c E (ParentHash header) w of
             (Inl f, w1) \<Rightarrow> Some (Inl f, state, w1)
           | (Inr span, w1) \<Rightarrow>
               if needToCommitSpan (config c) (Some span) headerNumber
               then fetchAndCommitSpan c E (spanID span + 1) state header chain w1
               else Some (Inr (), state, w1)))"

subsection \<open>State sync\<close>

definition validateEventRecord ::
  "EventRecordWithTime \<Rightarrow> uint64 \<Rightarrow> instant \<Rightarrow> uint64 \<Rightarrow> string \<Rightarrow> error option" where
  "validateEventRecord eventRecord number to lastStateID chainID =
     (if \<not> (lastStateID + 1 = evID eventRecord \<and> evChainID eventRecord = chainID
             \<and> evTime eventRecord < to)
      then Some (InvalidStateReceivedError number lastStateID to eventRecord)
      else None)"

text \<open>
  The loop of \<^verbatim>\<open>CommitStates\<close> over the event records, from the state-sync list, the
  last state id, the state and the world reached so far. It returns the list and the last
  state id it ends with.
\<close>

fun commitLoop ::
  "('w, 'st) Bor \<Rightarrow> ('w, 'st) Env \<Rightarrow> Header \<Rightarrow> uint64 \<Rightarrow> instant \<Rightarrow> string
     \<Rightarrow> EventRecordWithTime list \<Rightarrow> StateSyncData list \<Rightarrow> uint64 \<Rightarrow> 'st \<Rightarrow> 'w
     \<Rightarrow> (StateSyncData list \<times> uint64) result \<times> 'st \<times> 'w" where
  "commitLoop c E header number to chainID [] stateSyncs lastStateID state w =
     (Inr (stateSyncs, lastStateID), state, w)"
| "commitLoop c E header number to chainID (eventRecord # rest) stateSyncs lastStateID state w =
     (if evID eventRecord \<le> lastStateID
      then commitLoop c E header number to chainID rest stateSyncs lastStateID state w
      else
        (case validateEventRecord eventRecord number to lastStateID chainID of
           Some err \<Rightarrow> (Inr (stateSyncs, lastStateID), state, logError (rt E) (ErrorText err) w)
         | None \<Rightarrow>
             let stateData = \<lparr>ssID = evID eventRecord, ssContract = Contract eventRecord,
                               ssData = EncodeToString (Data eventRecord),
                               ssTxHash = TxHash eventRecord\<rparr>
             in
             (case CommitState (GenesisContractsClient c) eventRecord state header of
                (Inl f, state1) \<Rightarrow> (Inl f, state1, w)
              | (Inr _, state1) \<Rightarrow>
                  commitLoop c E header number to chainID rest (stateSyncs @ [stateData])
                    (lastStateID + 1) state1 w)))"

text \<open>The override of the fetched records by \<^verbatim>\<open>OverrideStateSyncRecords\<close> at this block
  number: a prefix of the list, when the configured count is below its length.\<close>

definition overrideRecords :: "BorConfig \<Rightarrow> uint64 \<Rightarrow> 'a list \<Rightarrow> 'a list result" where
  "overrideRecords cfg number eventRecords =
     (case OverrideStateSyncRecords cfg of
        None \<Rightarrow> Inr eventRecords
      | Some m \<Rightarrow>
          (case m (FormatUint10 (unat number)) of
             None \<Rightarrow> Inr eventRecords
           | Some val \<Rightarrow>
               if sint val < int (length eventRecords)
               then slice eventRecords 0 (sint val)
               else Inr eventRecords))"

definition CommitStates ::
  "('w, 'st) Bor \<Rightarrow> ('w, 'st) Env \<Rightarrow> 'st \<Rightarrow> Header \<Rightarrow> 'w ChainHeaderReader \<Rightarrow> 'w
     \<Rightarrow> StateSyncData list result \<times> 'st \<times> 'w" where
  "CommitStates c E state header chain w =
     (case Number header of
        None \<Rightarrow> (Inl nilDereference, state, w)
      | Some n \<Rightarrow>
          let number = (word_of_nat n :: uint64) in
          (case LastStateId (GenesisContractsClient c) (number - 1) of
             Inl f \<Rightarrow> (Inl f, state, w)
           | Inr lastID \<Rightarrow>
               (case GetHeaderByNumber chain (number - Sprint (config c)) of
                  None \<Rightarrow> (Inl nilDereference, state, w)
                | Some h \<Rightarrow>
                    let to = timeUnix (Time h);
                        lastStateID = (word_of_nat lastID :: uint64)
                    in
                    (case FetchStateSyncEvents (HeimdallClient c) (lastStateID + 1) (Unix to) of
                       Inl f \<Rightarrow> (Inl f, state, w)
                     | Inr fetched \<Rightarrow>
                         (case overrideRecords (config c) number fetched of
                            Inl f \<Rightarrow> (Inl f, state, w)
                          | Inr eventRecords \<Rightarrow>
                              (case commitLoop c E header number to (FormatUint10 (ChainID c))
                                      eventRecords [] lastStateID state w of
                                 (Inl f, state1, w1) \<Rightarrow> (Inl f, state1, w1)
                               | (Inr (stateSyncs, _), state1, w1) \<Rightarrow>
                                   (Inr stateSyncs, state1, w1)))))))"

text \<open>
  What the loop is to commit, stated apart from it: an event whose id is not above the
  last state id is passed over; any other event is committed when its id is the last state
  id plus one, its chain id is the configured one and its time is before the end of the
  window, and then the last state id advances; the first event that is neither ends
  the list.
\<close>

fun committedEvents ::
  "uint64 \<Rightarrow> instant \<Rightarrow> string \<Rightarrow> EventRecordWithTime list \<Rightarrow> EventRecordWithTime list" where
  "committedEvents lastStateID to chainID [] = []"
| "committedEvents lastStateID to chainID (e # es) =
     (if evID e \<le> lastStateID then committedEvents lastStateID to chainID es
      else if evID e = lastStateID + 1 \<and> evChainID e = chainID \<and> evTime e < to
      then e # committedEvents (lastStateID + 1) to chainID es
      else [])"

definition stateSyncOf :: "EventRecordWithTime \<Rightarrow> StateSyncData" where
  "stateSyncOf e =
     \<lparr>ssID = evID e, ssContract = Contract e, ssData = EncodeToString (Data e),
      ssTxHash = TxHash e\<rparr>"

subsection \<open>Finalize and FinalizeAndAssemble\<close>

fun changeContractCodeIfNeeded ::
  "('w, 'st) Env \<Rightarrow> (string \<times> string) list \<Rightarrow> uint64 \<Rightarrow> 'st \<Rightarrow> unit result \<times> 'st" where
  "changeContractCodeIfNeeded E [] headerNumber state = (Inr (), state)"
| "changeContractCodeIfNeeded E ((blockNumber, genesisAlloc) # rest) headerNumber state =
     (if blockNumber = FormatUint10 (unat headerNumber) then
        (case jsonGenesisAlloc (statePkg E) genesisAlloc of
           Inl (Err err) \<Rightarrow>
             (Inl (Err (errorfErr ''failed to decode genesis alloc: %v'' err)), state)
         | Inl (Panic p) \<Rightarrow> (Inl (Panic p), state)
         | Inr allocs \<Rightarrow>
             changeContractCodeIfNeeded E rest headerNumber
               (fold (\<lambda>(addr, code). SetCode (statePkg E) addr code) allocs state))
      else changeContractCodeIfNeeded E rest headerNumber state)"

definition interfaceConversion :: fault where
  "interfaceConversion = Panic (runtimeError ''interface conversion'')"

text \<open>
  \<^verbatim>\<open>Finalize\<close> has no result: \<open>Inr ()\<close> is a return, \<open>Inl\<close> a panic. The header and the
  state are changed in place and returned as they are left. The transactions and uncles
  passed to \<^verbatim>\<open>Finalize\<close>, and the uncles passed to \<^verbatim>\<open>FinalizeAndAssemble\<close>, are not used
  by the code and are left out.
\<close>

definition Finalize ::
  "('w, 'st) Bor \<Rightarrow> ('w, 'st) Env \<Rightarrow> 'w ChainHeaderReader \<Rightarrow> Header \<Rightarrow> 'st \<Rightarrow> 'w
     \<Rightarrow> (unit result \<times> Header \<times> 'st \<times> 'w) option" where
  "Finalize c E chain header state w =
     (case Number header of
        None \<Rightarrow> Some (Inl nilDereference, header, state, w)
      | Some n \<Rightarrow>
          let headerNumber = (word_of_nat n :: uint64) in
          if Sprint (config c) = 0 then Some (Inl divideByZero, header, state, w)
          else
            (case (if headerNumber mod Sprint (config c) = 0 then
                     (case checkAndCommitSpan c E state header chain w of
                        None \<Rightarrow> None
                      | Some (Inl (Panic p), state1, w1) \<Rightarrow> Some (Inl (Panic p), state1, w1)
                      | Some (Inl (Err err), state1, w1) \<Rightarrow>
                          Some (Inr None, state1,
                                logError (rt E) (ErrorCtx ''Error while committing span'' err) w1)
                      | Some (Inr _, state1, w1) \<Rightarrow>
                          if \<not> WithoutHeimdall c then
                            (case CommitStates c E state1 header chain w1 of
                               (Inl (Panic p), state2, w2) \<Rightarrow> Some (Inl (Panic p), state2, w2)
                             | (Inl (Err err), state2, w2) \<Rightarrow>
                                 Some (Inr None, state2,
                                       logError (rt E)
                                         (ErrorCtx ''Error while committing states'' err) w2)
                             | (Inr stateSyncData, state2, w2) \<Rightarrow>
                                 Some (Inr (Some stateSyncData), state2, w2))
                          else Some (Inr (Some []), state1, w1))
                   else Some (Inr (Some []), state, w)) of
               None \<Rightarrow> None
             | Some (Inl f, state1, w1) \<Rightarrow> Some (Inl f, header, state1, w1)
             | Some (Inr None, state1, w1) \<Rightarrow> Some (Inr (), header, state1, w1)
             | Some (Inr (Some stateSyncData), state1, w1) \<Rightarrow>
                 (case changeContractCodeIfNeeded E (BlockAlloc (config c)) headerNumber state1 of
                    (Inl (Panic p), state2) \<Rightarrow> Some (Inl (Panic p), header, state2, w1)
                  | (Inl (Err err), state2) \<Rightarrow>
                      Some (Inr (), header, state2,
                            logError (rt E) (ErrorCtx ''Error changing contract code'' err) w1)
                  | (Inr _, state2) \<Rightarrow>
                      (case IntermediateRoot (statePkg E) (IsEIP158 chain (Number header)) state2 of
                         (root, state3) \<Rightarrow>
                           (case asBlockChain chain of
                              None \<Rightarrow>
                                Some (Inl interfaceConversion,
                                      header\<lparr>Root := root, UncleHash := uncleHash\<rparr>, state3, w1)
                            | Some SetStateSync \<Rightarrow>
                                Some (Inr (), header\<lparr>Root := root, UncleHash := uncleHash\<rparr>,
                                      state3, SetStateSync stateSyncData w1))))))"

definition FinalizeAndAssemble ::
  "('w, 'st) Bor \<Rightarrow> ('w, 'st) Env \<Rightarrow> 'w ChainHeaderReader \<Rightarrow> Header \<Rightarrow> 'st
     \<Rightarrow> Transaction list \<Rightarrow> Receipt list \<Rightarrow> 'w
     \<Rightarrow> (Block result \<times> Header \<times> 'st \<times> 'w) option" where
  "FinalizeAndAssemble c E chain header state txs receipts w =
     (case Number header of
        None \<Rightarrow> Some (Inl nilDereference, header, state, w)
      | Some n \<Rightarrow>
          let headerNumber = (word_of_nat n :: uint64) in
          if Sprint (config c) = 0 then Some (Inl divideByZero, header, state, w)
          else
            (case (if headerNumber mod Sprint (config c) = 0 then
                     (case checkAndCommitSpan c E state header chain w of
                        None \<Rightarrow> None
                      | Some (Inl (Panic p), state1, w1) \<Rightarrow> Some (Inl (Panic p), state1, w1)
                      | Some (Inl (Err err), state1, w1) \<Rightarrow>
                          Some (Inl (Err err), state1,
                                logError (rt E) (ErrorCtx ''Error while committing span'' err) w1)
                      | Some (Inr _, state1, w1) \<Rightarrow>
                          if \<not> WithoutHeimdall c then
                            (case CommitStates c E state1 header chain w1 of
                               (Inl (Panic p), state2, w2) \<Rightarrow> Some (Inl (Panic p), state2, w2)
                             | (Inl (Err err), state2, w2) \<Rightarrow>
                                 Some (Inl (Err err), state2,
                                       logError (rt E)
                                         (ErrorCtx ''Error while committing states'' err) w2)
                             | (Inr stateSyncData, state2, w2) \<Rightarrow>
                                 Some (Inr stateSyncData, state2, w2))
                          else Some (Inr [], state1, w1))
                   else Some (Inr [], state, w)) of
               None \<Rightarrow> None
             | Some (Inl f, state1, w1) \<Rightarrow> Some (Inl f, header, state1, w1)
             | Some (Inr stateSyncData, state1, w1) \<Rightarrow>
                 (case changeContractCodeIfNeeded E (BlockAlloc (config c)) headerNumber state1 of
                    (Inl (Panic p), state2) \<Rightarrow> Some (Inl (Panic p), header, state2, w1)
                  | (Inl (Err err), state2) \<Rightarrow>
                      Some (Inl (Err err), header, state2,
                            logError (rt E) (ErrorCtx ''Error changing contract code'' err) w1)
                  | (Inr _, state2) \<Rightarrow>
                      (case IntermediateRoot (statePkg E) (IsEIP158 chain (Number header)) state2 of
                         (root, state3) \<Rightarrow>
                           (case asBlockChain chain of
                              None \<Rightarrow>
                                Some (Inl interfaceConversion,
                                      header\<lparr>Root := root, UncleHash := uncleHash\<rparr>, state3, w1)
                            | Some SetStateSync \<Rightarrow>
                                Some (Inr (NewBlock (codec E)
                                             (header\<lparr>Root := root, UncleHash := uncleHash\<rparr>)
                                             txs receipts),
                                      header\<lparr>Root := root, UncleHash := uncleHash\<rparr>,
                                      state3, SetStateSync stateSyncData w1))))))"

section \<open>A small instance\<close>

text \<open>
  A concrete world, state and set of collaborators, on which the definitions above
  evaluate: a clock that stands still at a given second, caches and a database as
  association lists, two validators \<open>0xA\<close> (the proposer) and \<open>0xB\<close>, a state that records
  the system calls and the events committed to it.
\<close>

record TestWorld =
  wLog :: "logEntry list"
  wRecents :: "(hash \<times> Snapshot) list"
  wSignatures :: "(hash \<times> address) list"
  wDB :: "(hash \<times> Snapshot) list"
  wStateSync :: "StateSyncData list option"

record TestState =
  stCommitted :: "uint64 list"
  stCalls :: "byte list list"
  stFinalised :: bool

definition testWorld :: "(hash \<times> Snapshot) list \<Rightarrow> TestWorld" where
  "testWorld cached =
     \<lparr>wLog = [], wRecents = cached, wSignatures = [], wDB = [], wStateSync = None\<rparr>"

definition testState :: TestState where
  "testState = \<lparr>stCommitted = [], stCalls = [], stFinalised = False\<rparr>"

definition testConfig :: "uint64 \<Rightarrow> BorConfig" where
  "testConfig sprint =
     \<lparr>Period = 2, ProducerDelay = 6, Sprint = sprint, BackupMultiplier = 2,
      ValidatorContract = ''0x1000'', StateReceiverContract = ''0x1001'',
      OverrideStateSyncRecords = None, BlockAlloc = []\<rparr>"

definition testRuntime :: "int \<Rightarrow> TestWorld Runtime" where
  "testRuntime sec =
     \<lparr>timeNow = (\<lambda>w. (sec * 1000000000, w)),
      logError = (\<lambda>e w. w\<lparr>wLog := wLog w @ [e]\<rparr>)\<rparr>"

definition testRecents :: "(TestWorld, Snapshot) ARCCache" where
  "testRecents =
     \<lparr>Get = (\<lambda>h w. (map_of (wRecents w) h, w)),
      Add = (\<lambda>h s w. w\<lparr>wRecents := (h, s) # wRecents w\<rparr>)\<rparr>"

definition testSignatures :: "(TestWorld, address) ARCCache" where
  "testSignatures =
     \<lparr>Get = (\<lambda>h w. (map_of (wSignatures w) h, w)),
      Add = (\<lambda>h a w. w\<lparr>wSignatures := (h, a) # wSignatures w\<rparr>)\<rparr>"

definition testSnapshotPkg :: "TestWorld SnapshotPkg" where
  "testSnapshotPkg =
     \<lparr>loadSnapshot = (\<lambda>h w. case map_of (wDB w) h of
                                None \<Rightarrow> Inl (Err (errorString ''snapshot not found''))
                              | Some s \<Rightarrow> Inr s),
      newSnapshot = (\<lambda>n h vs. \<lparr>snapNumber = n, snapHash = h,
                                 snapValidatorSet = \<lparr>Validators = vs\<rparr>\<rparr>),
      store = (\<lambda>s w. (Inr (), w\<lparr>wDB := (snapHash s, s) # wDB w\<rparr>)),
      snapApply = (\<lambda>s hs w. (Inr s, w)),
      HasAddress = (\<lambda>vs a. a \<in> set (map Address (Validators vs))),
      GetSignerSuccessionNumber =
        (\<lambda>s a. if a = 0xA then Inr 0 else if a = 0xB then Inr 1
                else Inl (Err (UnauthorizedSignerError (snapNumber s) a))),
      snapDifficulty = (\<lambda>s a. if a = 0xA then 2 else 1)\<rparr>"

text \<open>A validator takes 40 bytes in a header: its address, repeated 20 times, and its
  voting power, repeated 20 times.\<close>

fun testParse :: "byte list \<Rightarrow> Validator list" where
  "testParse bs =
     (if length bs < 40 then []
      else \<lparr>valID = 0, Address = ucast (bs ! 0), VotingPower = ucast (bs ! 20),
             ProposerPriority = 0\<rparr> # testParse (drop 40 bs))"

definition testValidatorPkg :: ValidatorPkg where
  "testValidatorPkg =
     \<lparr>HeaderBytes = (\<lambda>v. replicate 20 (ucast (Address v)) @ replicate 20 (ucast (VotingPower v))),
      ParseValidators = (\<lambda>bs. if length bs mod 40 \<noteq> 0
                               then Inl (Err (errorString ''Invalid validators bytes''))
                               else Inr (testParse bs)),
      sortByAddress = (\<lambda>vs. vs),
      encodeMinimalVals = (\<lambda>vs. Inr [])\<rparr>"

definition testHash :: "Header \<Rightarrow> hash" where
  "testHash h = (case Number h of None \<Rightarrow> 0 | Some n \<Rightarrow> word_of_nat n + 0x100)"

definition testCodec :: Codec where
  "testCodec =
     \<lparr>HeaderHash = testHash,
      sigHeaderHash = (\<lambda>h. 1),
      sigHeaderRLP = (\<lambda>h. [1, 2, 3]),
      recoverSigner = (\<lambda>h sig. Inr 0xA),
      HexToAddress = (\<lambda>s. 0x1000),
      unmarshalHeimdallSpan = (\<lambda>bs. Inl (Err (errorString ''unexpected end of JSON input''))),
      NewBlock = (\<lambda>h txs rs. \<lparr>blockHeader = h, Transactions = txs\<rparr>)\<rparr>"

definition testStatePkg :: "TestState StatePkg" where
  "testStatePkg =
     \<lparr>evmCall = (\<lambda>ctx from to data gas val st.
                   (if data = [] then Some (errorString ''execution reverted'') else None,
                    st\<lparr>stCalls := stCalls st @ [data]\<rparr>)),
      Finalise = (\<lambda>b st. st\<lparr>stFinalised := True\<rparr>),
      SetCode = (\<lambda>a code st. st),
      IntermediateRoot = (\<lambda>b st. (0x55, st)),
      jsonGenesisAlloc = (\<lambda>s. Inr [])\<rparr>"

definition testEnv :: "int \<Rightarrow> (TestWorld, TestState) Env" where
  "testEnv sec =
     \<lparr>rt = testRuntime sec, snapPkg = testSnapshotPkg, valPkg = testValidatorPkg,
      codec = testCodec, statePkg = testStatePkg\<rparr>"

definition testABI :: ABI where
  "testABI =
     \<lparr>Pack = (\<lambda>m args. Inr [7]),
      UnpackSpan = (\<lambda>bs. Inr (5, 100, 163)),
      UnpackValidators = (\<lambda>bs. Inr ([0xA, 0xB], [1, 1]))\<rparr>"

definition testHeimdall :: "EventRecordWithTime list result \<Rightarrow> IHeimdallClient" where
  "testHeimdall fetched =
     \<lparr>FetchWithRetry = (\<lambda>path query. Inl (Err (errorString ''heimdall unavailable''))),
      FetchStateSyncEvents = (\<lambda>fromID to. fetched)\<rparr>"

definition testContracts :: "nat \<Rightarrow> TestState GenesisContractsClient" where
  "testContracts lastID =
     \<lparr>LastStateId = (\<lambda>n. Inr lastID),
      CommitState = (\<lambda>e st h. (Inr (), st\<lparr>stCommitted := stCommitted st @ [evID e]\<rparr>))\<rparr>"

text \<open>The engine of the instance, from the sprint length, the signer, what every contract
  call returns and what Heimdall returns for the state-sync events.\<close>

definition testBor ::
  "uint64 \<Rightarrow> address \<Rightarrow> byte list result \<Rightarrow> EventRecordWithTime list result
     \<Rightarrow> (TestWorld, TestState) Bor" where
  "testBor sprint sg callResult fetched =
     \<lparr>ChainID = 137, config = testConfig sprint, recents = testRecents,
      signatures = testSignatures, signer = sg,
      signFn = Some (\<lambda>a m d. Inr (replicate 65 1)),
      ethAPI = \<lparr>Call = (\<lambda>args blk. callResult)\<rparr>,
      GenesisContractsClient = testContracts 10, validatorSetABI = testABI,
      HeimdallClient = testHeimdall fetched, WithoutHeimdall = False, fakeDiff = False\<rparr>"

definition testChain :: "Header list \<Rightarrow> TestWorld ChainHeaderReader" where
  "testChain hs =
     \<lparr>GetHeader = (\<lambda>h n. find (\<lambda>hd. testHash hd = h \<and> Number hd = Some (unat n)) hs),
      GetHeaderByNumber = (\<lambda>n. find (\<lambda>hd. Number hd = Some (unat n)) hs),
      VerifyForkHashes = (\<lambda>h. None),
      IsEIP158 = (\<lambda>n. True),
      asBlockChain = Some (\<lambda>ss w. w\<lparr>wStateSync := Some ss\<rparr>)\<rparr>"

definition testHeader :: "nat \<Rightarrow> uint64 \<Rightarrow> byte list \<Rightarrow> Header" where
  "testHeader n t extra =
     \<lparr>ParentHash = (if n = 0 then 0 else word_of_nat (n - 1) + 0x100), UncleHash = uncleHash,
      Coinbase = 0, Root = 0, Difficulty = Some 2, Number = Some n, Time = t, Extra = extra,
      MixDigest = 0, Nonce = 0\<rparr>"


definition testSnapshot :: "nat \<Rightarrow> Snapshot" where
  "testSnapshot n =
     \<lparr>snapNumber = word_of_nat n, snapHash = word_of_nat n + 0x100,
      snapValidatorSet = \<lparr>Validators =
        [\<lparr>valID = 0, Address = 0xA, VotingPower = 1, ProposerPriority = 0\<rparr>,
         \<lparr>valID = 0, Address = 0xB, VotingPower = 1, ProposerPriority = 0\<rparr>]\<rparr>\<rparr>"

definition testEvent :: "uint64 \<Rightarrow> EventRecordWithTime" where
  "testEvent i =
     \<lparr>evID = i, Contract = 0x2000, Data = [0xAB], TxHash = 0x77, evChainID = ''137'',
      evTime = 50 * 1000000000\<rparr>"

section \<open>Theorems\<close>

subsection \<open>CalcProducerDelay and needToCommitSpan\<close>

lemma unat_last_sprint_start:
  fixes e s :: uint64
  assumes "s < e" and "s \<noteq> 0"
  shows "unat (e - s + 1) = unat e - unat s + 1"
proof -
  have le: "unat s < unat e" using assms(1) by (simp add: word_less_nat_alt)
  have pos: "0 < unat s" using assms(2) by (simp add: unat_gt_0)
  have sub: "unat (e - s) = unat e - unat s"
    using assms(1) by (simp add: unat_sub)
  have "unat e < 2 ^ 64" using unsigned_less [of e] by simp
  then have "unat (e - s) + unat (1 :: uint64) < 2 ^ LENGTH(64)"
    using le pos sub by simp
  then have "unat (e - s + 1) = unat (e - s) + unat (1 :: uint64)"
    by (simp only: unat_add_lem [THEN iffD1])
  then show ?thesis using sub by simp
qed

text \<open>
  C3. With a non-zero sprint length, needToCommitSpan is false for a nil span; for a span
  it is true exactly when \<open>end_block = 0\<close>, or \<open>end_block > sprint\<close> and the header
  number is \<open>end_block - sprint + 1\<close>, all read as natural numbers.
\<close>

theorem needToCommitSpan_iff:
  assumes sprint: "Sprint c \<noteq> 0"
  shows "needToCommitSpan c span headerNumber =
     (case span of
        None \<Rightarrow> False
      | Some s \<Rightarrow>
          unat (EndBlock s) = 0 \<or>
          (unat (Sprint c) < unat (EndBlock s) \<and>
           unat headerNumber = unat (EndBlock s) - unat (Sprint c) + 1))"
proof (cases span)
  case None
  then show ?thesis by (simp add: needToCommitSpan_def)
next
  case (Some s)
  show ?thesis
  proof (cases "Sprint c < EndBlock s")
    case True
    have "(EndBlock s - Sprint c + 1 = headerNumber) =
          (unat headerNumber = unat (EndBlock s) - unat (Sprint c) + 1)"
      using unat_last_sprint_start [OF True sprint] by (auto simp: word_unat_eq_iff)
    then show ?thesis
      using Some True by (auto simp: needToCommitSpan_def word_less_nat_alt unat_eq_zero)
  next
    case False
    then show ?thesis
      using Some by (auto simp: needToCommitSpan_def word_less_nat_alt unat_eq_zero)
  qed
qed

text \<open>
  C5. For a config with a non-zero sprint and a succession offset that is not negative,
  CalcProducerDelay returns \<open>base + succession * backup_multiplier\<close> in uint64 arithmetic,
  where \<open>base\<close> is \<open>producer_delay\<close> when \<open>number mod sprint = 0\<close> and \<open>period\<close> otherwise.
\<close>

theorem CalcProducerDelay_formula:
  assumes "Sprint c \<noteq> 0" and "0 \<le>s succession"
  shows "CalcProducerDelay number succession c =
           Inr ((if unat number mod unat (Sprint c) = 0 then ProducerDelay c else Period c)
                + succession * BackupMultiplier c)"
proof -
  have m: "(number mod Sprint c = 0) = (unat number mod unat (Sprint c) = 0)"
    by (simp add: word_unat_eq_iff unat_mod)
  show ?thesis
  proof (cases "0 <s succession")
    case True
    then show ?thesis using assms(1) m by (simp add: CalcProducerDelay_def)
  next
    case False
    then have "succession = 0" using assms(2) by (simp add: signed.le_less)
    then show ?thesis using assms(1) m by (simp add: CalcProducerDelay_def)
  qed
qed

theorem needToCommitSpan_iff_witness:
  "needToCommitSpan (testConfig 16) (Some \<lparr>spanID = 5, StartBlock = 100, EndBlock = 163\<rparr>) 148"
  using needToCommitSpan_iff [of "testConfig 16"
      "Some \<lparr>spanID = 5, StartBlock = 100, EndBlock = 163\<rparr>" 148]
  by (simp add: testConfig_def)

theorem CalcProducerDelay_formula_witness:
  "CalcProducerDelay 128 1 (testConfig 64) = Inr 8"
  using CalcProducerDelay_formula [of "testConfig 64" 1 128]
  by (simp add: testConfig_def word_sle_eq)

subsection \<open>Header verification\<close>

lemma unix_plus_allow:
  assumes "0 \<le> s" and "s + 3 < 2 ^ 63"
  shows "uint ((word_of_int s :: int64) + allowFutureBlockTimeSeconds) = s + 3"
proof -
  have a: "uint (word_of_int s :: int64) = s"
    using assms by (simp add: uint_word_of_int take_bit_int_eq_self)
  have "uint ((word_of_int s :: int64) + 3) = (s + 3) mod 2 ^ 64"
    using a by (simp add: uint_word_ariths)
  also have "\<dots> = s + 3" using assms by simp
  finally show ?thesis by (simp add: allowFutureBlockTimeSeconds_def)
qed


text \<open>
  C7. For a header with a number, checked at a clock reading of \<open>now\<close> seconds (a Unix time
  that is not negative and not within three seconds of the end of int64): a header whose
  time is \<open>now + 4\<close> or later gets FutureBlock; a header whose time is exactly \<open>now + 3\<close>
  does not get FutureBlock from verifyHeader, whose result is then FutureBlock only if
  the fork-hash check or verifyCascadingFields hands that error up.
\<close>

theorem verifyHeader_future_block:
  assumes num: "Number header = Some n"
      and clk: "timeNow (rt E) w = (now, w1)"
      and lo: "0 \<le> now div 1000000000"
      and hi: "now div 1000000000 + 3 < 2 ^ 63"
  shows "(now div 1000000000 + 4 \<le> uint (Time header)
            \<longrightarrow> verifyHeader c E chain header parents w = Some (Inl (Err ErrFutureBlock), w1))
       \<and> (uint (Time header) = now div 1000000000 + 3
            \<longrightarrow> VerifyForkHashes chain header \<noteq> Some ErrFutureBlock
            \<longrightarrow> map_option fst (verifyCascadingFields c E chain header parents w1)
                  \<noteq> Some (Inl (Err ErrFutureBlock))
            \<longrightarrow> map_option fst (verifyHeader c E chain header parents w)
                  \<noteq> Some (Inl (Err ErrFutureBlock)))"
proof -
  have lim: "uint (Unix now + allowFutureBlockTimeSeconds) = now div 1000000000 + 3"
    unfolding Unix_def using unix_plus_allow [OF lo hi] .
  have fut: "(Unix now + allowFutureBlockTimeSeconds < Time header)
               = (now div 1000000000 + 4 \<le> uint (Time header))"
    using lim by (auto simp: word_less_def)
  show ?thesis
  proof (intro conjI impI)
    assume "now div 1000000000 + 4 \<le> uint (Time header)"
    then show "verifyHeader c E chain header parents w = Some (Inl (Err ErrFutureBlock), w1)"
      using num clk fut by (simp add: verifyHeader_def)
  next
    assume eq: "uint (Time header) = now div 1000000000 + 3"
       and fork: "VerifyForkHashes chain header \<noteq> Some ErrFutureBlock"
       and casc: "map_option fst (verifyCascadingFields c E chain header parents w1)
                  \<noteq> Some (Inl (Err ErrFutureBlock))"
    have nf: "\<not> (Unix now + allowFutureBlockTimeSeconds < Time header)"
      using fut eq by simp
    show "map_option fst (verifyHeader c E chain header parents w)
                  \<noteq> Some (Inl (Err ErrFutureBlock))"
      using num clk nf fork casc
      by (auto simp: verifyHeader_def validateHeaderExtraField_def Let_def divideByZero_def
               split: option.splits if_splits)
  qed
qed

theorem verifyHeader_future_block_witness:
  "verifyHeader (testBor 64 0xA (Inr []) (Inr [])) (testEnv 100) (testChain [])
       (testHeader 0 104 (replicate 97 0)) [] (testWorld [])
     = Some (Inl (Err ErrFutureBlock), testWorld [])
   \<and> map_option fst
       (verifyHeader (testBor 64 0xA (Inr []) (Inr [])) (testEnv 100) (testChain [])
          (testHeader 0 103 (replicate 97 0)) [] (testWorld []))
     \<noteq> Some (Inl (Err ErrFutureBlock))"
proof -
  let ?c = "testBor 64 0xA (Inr []) (Inr [])"
  have clk: "timeNow (rt (testEnv 100)) (testWorld []) = (100 * 1000000000, testWorld [])"
    by (simp add: testEnv_def testRuntime_def)
  have lo: "(0::int) \<le> 100 * 1000000000 div 1000000000" by simp
  have hi: "(100 * 1000000000 div 1000000000 + 3 :: int) < 2 ^ 63" by simp
  have n4: "Number (testHeader 0 104 (replicate 97 0)) = Some 0"
    by (simp add: testHeader_def)
  have n3: "Number (testHeader 0 103 (replicate 97 0)) = Some 0"
    by (simp add: testHeader_def)
  have t4: "(100 * 1000000000 div 1000000000 + 4 :: int)
              \<le> uint (Time (testHeader 0 104 (replicate 97 0)))"
    by (simp add: testHeader_def)
  have t3: "uint (Time (testHeader 0 103 (replicate 97 0)))
              = (100 * 1000000000 div 1000000000 + 3 :: int)"
    by (simp add: testHeader_def)
  have fork: "VerifyForkHashes (testChain []) (testHeader 0 103 (replicate 97 0))
                \<noteq> Some ErrFutureBlock"
    by (simp add: testChain_def)
  have casc: "map_option fst (verifyCascadingFields ?c (testEnv 100) (testChain [])
                 (testHeader 0 103 (replicate 97 0)) [] (testWorld []))
                \<noteq> Some (Inl (Err ErrFutureBlock))"
    by (simp add: verifyCascadingFields_def testHeader_def)
  show ?thesis
    using verifyHeader_future_block [OF n4 clk lo hi, where c = ?c and chain = "testChain []"
            and parents = "[]"]
          verifyHeader_future_block [OF n3 clk lo hi, where c = ?c and chain = "testChain []"
            and parents = "[]"]
          t4 t3 fork casc
    by blast
qed








subsection \<open>State sync\<close>

lemma validateEventRecord_None:
  "(validateEventRecord e number to lastStateID chainID = None)
     = (evID e = lastStateID + 1 \<and> evChainID e = chainID \<and> evTime e < to)"
  by (auto simp: validateEventRecord_def)

lemma commitLoop_committed:
  "commitLoop c E header number to chainID events ss0 last0 st0 w0 = (Inr (ss, lastID), st, w)
   \<Longrightarrow> ss = ss0 @ map stateSyncOf (committedEvents last0 to chainID events)
       \<and> lastID = last0 + word_of_nat (length (committedEvents last0 to chainID events))
       \<and> st = fold (\<lambda>e s. snd (CommitState (GenesisContractsClient c) e s header))
                (committedEvents last0 to chainID events) st0"
proof (induction events arbitrary: ss0 last0 st0 w0)
  case Nil
  then show ?case by simp
next
  case (Cons e es)
  show ?case
  proof (cases "evID e \<le> last0")
    case True
    then show ?thesis using Cons.prems Cons.IH by simp
  next
    case fresh: False
    show ?thesis
    proof (cases "validateEventRecord e number to last0 chainID")
      case (Some err)
      then have "\<not> (evID e = last0 + 1 \<and> evChainID e = chainID \<and> evTime e < to)"
        using validateEventRecord_None [of e number to last0 chainID] by simp
      then show ?thesis using Cons.prems fresh Some by auto
    next
      case None
      then have ok: "evID e = last0 + 1 \<and> evChainID e = chainID \<and> evTime e < to"
        using validateEventRecord_None [of e number to last0 chainID] by simp
      obtain r st1 where cs: "CommitState (GenesisContractsClient c) e st0 header = (r, st1)"
        by (cases "CommitState (GenesisContractsClient c) e st0 header")
      show ?thesis
      proof (cases r)
        case (Inl f)
        then show ?thesis using Cons.prems fresh None cs by simp
      next
        case (Inr u)
        then have "commitLoop c E header number to chainID es (ss0 @ [stateSyncOf e])
                     (last0 + 1) st1 w0 = (Inr (ss, lastID), st, w)"
          using Cons.prems fresh None cs by (simp add: stateSyncOf_def)
        from Cons.IH [OF this] show ?thesis
          using fresh ok cs by (simp add: add.assoc)
      qed
    qed
  qed
qed

lemma committedEvents_ids:
  "map evID (committedEvents last0 to chainID events)
     = map (\<lambda>i. last0 + 1 + word_of_nat i) [0..<length (committedEvents last0 to chainID events)]"
proof (induction events arbitrary: last0)
  case Nil
  then show ?case by simp
next
  case (Cons e es)
  show ?case
  proof (cases "evID e \<le> last0")
    case True
    then show ?thesis using Cons.IH by simp
  next
    case False
    show ?thesis
    proof (cases "evID e = last0 + 1 \<and> evChainID e = chainID \<and> evTime e < to")
      case True
      have "map evID (committedEvents (last0 + 1) to chainID es)
              = map (\<lambda>i. last0 + 1 + 1 + word_of_nat i)
                  [0..<length (committedEvents (last0 + 1) to chainID es)]"
        using Cons.IH by simp
      also have "\<dots> = map (\<lambda>i. last0 + 1 + word_of_nat i)
                  [Suc 0..<Suc (length (committedEvents (last0 + 1) to chainID es))]"
        by (simp add: map_Suc_upt [symmetric] add.assoc add.commute del: upt_Suc)
      finally show ?thesis using False True by (simp add: upt_rec [of 0] del: upt_Suc)
    next
      case inv: False
      then show ?thesis using False by simp
    qed
  qed
qed

lemma committedEvents_valid:
  "e \<in> set (committedEvents last0 to chainID events) \<Longrightarrow> evChainID e = chainID \<and> evTime e < to"
  by (induction events arbitrary: last0) (auto split: if_splits)

lemma committedEvents_subseq:
  "subseq (committedEvents last0 to chainID events) events"
  by (induction events arbitrary: last0) auto

lemma committedEvents_break:
  "last0 + word_of_nat (length (committedEvents last0 to chainID xs)) < evID e
   \<Longrightarrow> \<not> (evID e = last0 + word_of_nat (length (committedEvents last0 to chainID xs)) + 1
          \<and> evChainID e = chainID \<and> evTime e < to)
   \<Longrightarrow> committedEvents last0 to chainID (xs @ e # ys) = committedEvents last0 to chainID xs"
proof (induction xs arbitrary: last0)
  case Nil
  then show ?case by (auto simp: not_le)
next
  case (Cons x xs)
  show ?case
  proof (cases "evID x \<le> last0")
    case True
    then show ?thesis using Cons by simp
  next
    case False
    show ?thesis
    proof (cases "evID x = last0 + 1 \<and> evChainID x = chainID \<and> evTime x < to")
      case True
      let ?K = "committedEvents (last0 + 1) to chainID xs"
      have K: "committedEvents last0 to chainID (x # xs) = x # ?K"
        using False True by simp
      have len: "last0 + word_of_nat (length (x # ?K)) = (last0 + 1) + word_of_nat (length ?K)"
        by simp
      have p1: "(last0 + 1) + word_of_nat (length ?K) < evID e"
        using Cons.prems(1) unfolding K len .
      have p2: "\<not> (evID e = (last0 + 1) + word_of_nat (length ?K) + 1
                  \<and> evChainID e = chainID \<and> evTime e < to)"
        using Cons.prems(2) unfolding K len .
      have "committedEvents (last0 + 1) to chainID (xs @ e # ys) = ?K"
        by (rule Cons.IH [OF p1 p2])
      then show ?thesis using False True by simp
    next
      case inv: False
      then show ?thesis using False by auto
    qed
  qed
qed

lemma CommitStates_loop:
  assumes num: "Number header = Some n"
      and lastid: "LastStateId (GenesisContractsClient c) (word_of_nat n - 1) = Inr lastID"
      and window: "GetHeaderByNumber chain (word_of_nat n - Sprint (config c)) = Some h"
      and fetch: "FetchStateSyncEvents (HeimdallClient c) (word_of_nat lastID + 1)
                    (Unix (timeUnix (Time h))) = Inr fetched"
      and over: "overrideRecords (config c) (word_of_nat n) fetched = Inr events"
  shows "CommitStates c E state header chain w =
           (case commitLoop c E header (word_of_nat n) (timeUnix (Time h))
                   (FormatUint10 (ChainID c)) events [] (word_of_nat lastID) state w of
              (Inl f, state1, w1) \<Rightarrow> (Inl f, state1, w1)
            | (Inr (stateSyncs, _), state1, w1) \<Rightarrow> (Inr stateSyncs, state1, w1))"
  using num lastid window fetch over by (simp add: CommitStates_def Let_def)

text \<open>
  C2, as the code has it. Let CommitStates return a state-sync list (no collaborator and
  no CommitState call returned an error), and let \<open>events\<close> be the fetched event list,
  after the configured override. Then the events it committed are \<open>committedEvents\<close>:
  events whose id is not above the last state id are passed over, without committing them
  and without stopping; the others are committed in order while each has the id
  \<open>last_state_id + 1\<close>, the configured chain id and a time before the end of the window.
  The returned list is exactly the committed events, in order; the state is the result of
  CommitState on each of them; the loop ends with the last state id advanced by their
  number; their ids are consecutive from \<open>last_state_id + 1\<close>; they are a subsequence of
  the events; and once an event with an id above the current last state id fails a check,
  neither it nor any later event is committed.
\<close>

theorem CommitStates_commits:
  assumes num: "Number header = Some n"
      and lastid: "LastStateId (GenesisContractsClient c) (word_of_nat n - 1) = Inr lastID"
      and window: "GetHeaderByNumber chain (word_of_nat n - Sprint (config c)) = Some h"
      and fetch: "FetchStateSyncEvents (HeimdallClient c) (word_of_nat lastID + 1)
                    (Unix (timeUnix (Time h))) = Inr fetched"
      and over: "overrideRecords (config c) (word_of_nat n) fetched = Inr events"
      and ret: "CommitStates c E state header chain w = (Inr ss, st, w')"
  shows "(let last0 = (word_of_nat lastID :: uint64);
              to = timeUnix (Time h);
              chainID = FormatUint10 (ChainID c);
              committed = committedEvents last0 to chainID events
          in ss = map stateSyncOf committed
           \<and> st = fold (\<lambda>e s. snd (CommitState (GenesisContractsClient c) e s header))
                    committed state
           \<and> fst (commitLoop c E header (word_of_nat n) to chainID events [] last0 state w)
               = Inr (ss, last0 + word_of_nat (length committed))
           \<and> map evID committed = map (\<lambda>i. last0 + 1 + word_of_nat i) [0..<length committed]
           \<and> list_all (\<lambda>e. evChainID e = chainID \<and> evTime e < to) committed
           \<and> subseq committed events
           \<and> (events = xs @ e # ys
               \<and> last0 + word_of_nat (length (committedEvents last0 to chainID xs)) < evID e
               \<and> \<not> (evID e
                       = last0 + word_of_nat (length (committedEvents last0 to chainID xs)) + 1
                     \<and> evChainID e = chainID \<and> evTime e < to)
               \<longrightarrow> committed = committedEvents last0 to chainID xs))"
proof -
  let ?last0 = "word_of_nat lastID :: uint64"
  let ?to = "timeUnix (Time h)"
  let ?cid = "FormatUint10 (ChainID c)"
  let ?K = "committedEvents ?last0 ?to ?cid events"
  obtain r st1 w1 where
    loop: "commitLoop c E header (word_of_nat n) ?to ?cid events [] ?last0 state w = (r, st1, w1)"
    by (metis prod_cases3)
  have "\<exists>l. r = Inr (ss, l) \<and> st1 = st \<and> w1 = w'"
    using ret loop unfolding CommitStates_loop [OF num lastid window fetch over]
    by (cases r) auto
  then obtain l where
    run: "commitLoop c E header (word_of_nat n) ?to ?cid events [] ?last0 state w
            = (Inr (ss, l), st, w')"
    using loop by blast
  note facts = commitLoop_committed [OF run]
  have a: "ss = map stateSyncOf ?K" using facts by simp
  have b: "st = fold (\<lambda>e s. snd (CommitState (GenesisContractsClient c) e s header)) ?K state"
    using facts by simp
  have c: "fst (commitLoop c E header (word_of_nat n) ?to ?cid events [] ?last0 state w)
             = Inr (ss, ?last0 + word_of_nat (length ?K))"
    using facts run by simp
  have d: "list_all (\<lambda>e. evChainID e = ?cid \<and> evTime e < ?to) ?K"
    unfolding list_all_iff using committedEvents_valid by blast
  have e: "events = xs @ e # ys
             \<and> ?last0 + word_of_nat (length (committedEvents ?last0 ?to ?cid xs)) < evID e
             \<and> \<not> (evID e = ?last0 + word_of_nat (length (committedEvents ?last0 ?to ?cid xs)) + 1
                   \<and> evChainID e = ?cid \<and> evTime e < ?to)
           \<longrightarrow> ?K = committedEvents ?last0 ?to ?cid xs"
    using committedEvents_break [of ?last0 ?to ?cid xs e ys] by blast
  show ?thesis
    unfolding Let_def
    using a b c d e committedEvents_ids [of ?last0 ?to ?cid events]
          committedEvents_subseq [of ?last0 ?to ?cid events]
    by (intro conjI)
qed

lemma FormatUint10_137: "FormatUint10 137 = ''137''"
  by code_simp

lemma testEvents_commit:
  "commitLoop (testBor 4 0xA (Inr []) fetched) (testEnv 50) (testHeader 4 0 []) 4
      (100 * 1000000000) ''137'' [testEvent 11, testEvent 12, testEvent 14] [] 10 testState
      (testWorld [])
     = (Inr ([stateSyncOf (testEvent 11), stateSyncOf (testEvent 12)], 12),
        testState\<lparr>stCommitted := [11, 12]\<rparr>,
        (testWorld [])\<lparr>wLog := [ErrorText (InvalidStateReceivedError 4 12 (100 * 1000000000)
                                              (testEvent 14))]\<rparr>)"
  by (simp add: validateEventRecord_def testEvent_def testBor_def testContracts_def
        testState_def testWorld_def testEnv_def testRuntime_def stateSyncOf_def)

theorem CommitStates_commits_witness:
  "CommitStates (testBor 4 0xA (Inr []) (Inr [testEvent 11, testEvent 12, testEvent 14]))
      (testEnv 50) testState (testHeader 4 0 []) (testChain [testHeader 0 100 (replicate 97 0)])
      (testWorld [])
     = (Inr [stateSyncOf (testEvent 11), stateSyncOf (testEvent 12)],
        testState\<lparr>stCommitted := [11, 12]\<rparr>,
        (testWorld [])\<lparr>wLog := [ErrorText (InvalidStateReceivedError 4 12 (100 * 1000000000)
                                              (testEvent 14))]\<rparr>)
   \<and> committedEvents 10 (100 * 1000000000) ''137'' [testEvent 11, testEvent 12, testEvent 14]
     = [testEvent 11, testEvent 12]
   \<and> fst (commitLoop (testBor 4 0xA (Inr []) (Inr [testEvent 11, testEvent 12, testEvent 14]))
           (testEnv 50) (testHeader 4 0 []) 4 (100 * 1000000000) ''137''
           [testEvent 11, testEvent 12, testEvent 14] [] 10 testState (testWorld []))
     = Inr ([stateSyncOf (testEvent 11), stateSyncOf (testEvent 12)], 10 + word_of_nat 2)"
proof -
  let ?evs = "[testEvent 11, testEvent 12, testEvent 14]"
  let ?c = "testBor 4 0xA (Inr []) (Inr ?evs)"
  let ?chain = "testChain [testHeader 0 100 (replicate 97 0)]"
  let ?h = "testHeader 4 0 []"
  let ?w = "(testWorld [])\<lparr>wLog := [ErrorText (InvalidStateReceivedError 4 12
                                                (100 * 1000000000) (testEvent 14))]\<rparr>"
  have num: "Number ?h = Some 4" by (simp add: testHeader_def)
  have lastid: "LastStateId (GenesisContractsClient ?c) (word_of_nat 4 - 1) = Inr 10"
    by (simp add: testBor_def testContracts_def)
  have window: "GetHeaderByNumber ?chain (word_of_nat 4 - Sprint (config ?c))
                  = Some (testHeader 0 100 (replicate 97 0))"
    by (simp add: testBor_def testConfig_def testChain_def testHeader_def)
  have fetch: "FetchStateSyncEvents (HeimdallClient ?c) (word_of_nat 10 + 1)
                 (Unix (timeUnix (Time (testHeader 0 100 (replicate 97 0))))) = Inr ?evs"
    by (simp add: testBor_def testHeimdall_def)
  have over: "overrideRecords (config ?c) (word_of_nat 4) ?evs = Inr ?evs"
    by (simp add: overrideRecords_def testBor_def testConfig_def)
  have to: "timeUnix (Time (testHeader 0 100 (replicate 97 0))) = 100 * 1000000000"
    by (simp add: timeUnix_def testHeader_def)
  have cid: "FormatUint10 (ChainID ?c) = ''137''"
    by (simp add: testBor_def FormatUint10_137)
  have ret: "CommitStates ?c (testEnv 50) testState ?h ?chain (testWorld [])
               = (Inr [stateSyncOf (testEvent 11), stateSyncOf (testEvent 12)],
                  testState\<lparr>stCommitted := [11, 12]\<rparr>, ?w)"
    unfolding CommitStates_loop [OF num lastid window fetch over] to cid
    using testEvents_commit [of "Inr ?evs"] by simp
  have sel: "committedEvents 10 (100 * 1000000000) ''137'' ?evs = [testEvent 11, testEvent 12]"
    by (simp add: testEvent_def)
  have "fst (commitLoop ?c (testEnv 50) ?h (word_of_nat 4)
               (timeUnix (Time (testHeader 0 100 (replicate 97 0)))) (FormatUint10 (ChainID ?c))
               ?evs [] (word_of_nat 10) testState (testWorld []))
          = Inr ([stateSyncOf (testEvent 11), stateSyncOf (testEvent 12)],
                 word_of_nat 10
                   + word_of_nat (length (committedEvents (word_of_nat 10)
                        (timeUnix (Time (testHeader 0 100 (replicate 97 0))))
                        (FormatUint10 (ChainID ?c)) ?evs)))"
    by (rule CommitStates_commits [OF num lastid window fetch over ret, unfolded Let_def,
              THEN conjunct2, THEN conjunct2, THEN conjunct1])
  moreover have n4: "(word_of_nat 4 :: uint64) = 4" by simp
  moreover have n10: "(word_of_nat 10 :: uint64) = 10" by simp
  moreover have len: "length [testEvent 11, testEvent 12] = 2" by simp
  ultimately have "fst (commitLoop ?c (testEnv 50) ?h 4 (100 * 1000000000) ''137'' ?evs [] 10
                    testState (testWorld []))
               = Inr ([stateSyncOf (testEvent 11), stateSyncOf (testEvent 12)],
                      10 + word_of_nat 2)"
    by (simp only: to cid sel)
  with ret sel show ?thesis by (intro conjI)
qed

text \<open>
  C2 as stated fails. With the last state id 10 and the fetched events 5 and 11, event 5
  does not satisfy \<open>id = last_state_id + 1\<close>, but the loop does not break at it: it
  passes over event 5 and commits event 11, which comes later.
\<close>

theorem CommitStates_stale_event_counterexample:
  "evID (testEvent 5) \<noteq> 10 + 1
   \<and> CommitStates (testBor 4 0xA (Inr []) (Inr [testEvent 5, testEvent 11])) (testEnv 50)
        testState (testHeader 4 0 []) (testChain [testHeader 0 100 (replicate 97 0)])
        (testWorld [])
       = (Inr [stateSyncOf (testEvent 11)], testState\<lparr>stCommitted := [11]\<rparr>, testWorld [])"
proof -
  let ?evs = "[testEvent 5, testEvent 11]"
  let ?c = "testBor 4 0xA (Inr []) (Inr ?evs)"
  let ?chain = "testChain [testHeader 0 100 (replicate 97 0)]"
  let ?h = "testHeader 4 0 []"
  have num: "Number ?h = Some 4" by (simp add: testHeader_def)
  have lastid: "LastStateId (GenesisContractsClient ?c) (word_of_nat 4 - 1) = Inr 10"
    by (simp add: testBor_def testContracts_def)
  have window: "GetHeaderByNumber ?chain (word_of_nat 4 - Sprint (config ?c))
                  = Some (testHeader 0 100 (replicate 97 0))"
    by (simp add: testBor_def testConfig_def testChain_def testHeader_def)
  have fetch: "FetchStateSyncEvents (HeimdallClient ?c) (word_of_nat 10 + 1)
                 (Unix (timeUnix (Time (testHeader 0 100 (replicate 97 0))))) = Inr ?evs"
    by (simp add: testBor_def testHeimdall_def)
  have over: "overrideRecords (config ?c) (word_of_nat 4) ?evs = Inr ?evs"
    by (simp add: overrideRecords_def testBor_def testConfig_def)
  have to: "timeUnix (Time (testHeader 0 100 (replicate 97 0))) = 100 * 1000000000"
    by (simp add: timeUnix_def testHeader_def)
  have cid: "FormatUint10 (ChainID ?c) = ''137''"
    by (simp add: testBor_def FormatUint10_137)
  have loop: "commitLoop ?c (testEnv 50) ?h 4 (100 * 1000000000) ''137'' ?evs [] 10 testState
                (testWorld [])
              = (Inr ([stateSyncOf (testEvent 11)], 11), testState\<lparr>stCommitted := [11]\<rparr>,
                 testWorld [])"
    by (simp add: validateEventRecord_def testEvent_def testBor_def testContracts_def
          testState_def testWorld_def stateSyncOf_def)
  have "CommitStates ?c (testEnv 50) testState ?h ?chain (testWorld [])
          = (Inr [stateSyncOf (testEvent 11)], testState\<lparr>stCommitted := [11]\<rparr>, testWorld [])"
    unfolding CommitStates_loop [OF num lastid window fetch over] to cid
    using loop by simp
  moreover have "evID (testEvent 5) \<noteq> 10 + 1" by (simp add: testEvent_def)
  ultimately show ?thesis by (intro conjI)
qed

subsection \<open>System messages\<close>

lemma applyMessage_nil_header_field:
  assumes "Number header = None \<or> Difficulty header = None"
  shows "applyMessage E msg state header = (Inl nilDereference, state)"
  using assms
  by (auto simp: applyMessage_def NewEVMBlockContext_def split: option.splits)

text \<open>
  C4. For every system message, in the block of a header that has a number and a
  difficulty (the block context is built from them), applyMessage returns nil. The state
  it leaves is the state after the EVM call when the call succeeds, and
  \<open>Finalise(true)\<close> of the state after the call when the call returns an error; the error
  is not returned.
\<close>

theorem applyMessage_swallows_error:
  assumes num: "Number header = Some n"
      and diff: "Difficulty header = Some d"
  shows "applyMessage E (getSystemMessage toAddress data) state header =
     (Inr (),
      case evmCall (statePkg E)
             \<lparr>GetHashRef = header, ctxCoinbase = Coinbase header, BlockNumber = n,
              ctxTime = Time header, ctxDifficulty = d\<rparr>
             systemAddress toAddress data halfMaxGas 0 state of
        (None, state1) \<Rightarrow> state1
      | (Some err, state1) \<Rightarrow> Finalise (statePkg E) True state1)"
  using num diff
  by (simp add: applyMessage_def NewEVMBlockContext_def getSystemMessage_def
           split: prod.splits option.splits)

theorem applyMessage_swallows_error_witness:
  "applyMessage (testEnv 50) (getSystemMessage 0x1000 []) testState (testHeader 4 0 [])
     = (Inr (), \<lparr>stCommitted = [], stCalls = [[]], stFinalised = True\<rparr>)"
proof -
  have num: "Number (testHeader 4 0 []) = Some 4" by (simp add: testHeader_def)
  have diff: "Difficulty (testHeader 4 0 []) = Some 2" by (simp add: testHeader_def)
  show ?thesis
    using applyMessage_swallows_error [OF num diff, where E = "testEnv 50"
            and toAddress = "0x1000" and data = "[]" and state = testState]
    by (simp add: testEnv_def testStatePkg_def testState_def)
qed

subsection \<open>Finalize and FinalizeAndAssemble\<close>

text \<open>
  C6. At a sprint boundary (\<open>number mod sprint = 0\<close>), when checkAndCommitSpan returns an
  error, or when it succeeds and, with Heimdall in use, CommitStates returns an error:
  Finalize logs the error and returns, with the header as it was and no state-sync data
  set; FinalizeAndAssemble logs the error and returns it, with no block.
\<close>

theorem Finalize_swallows_FinalizeAndAssemble_returns:
  assumes num: "Number header = Some n"
      and sprint: "Sprint (config c) \<noteq> 0"
      and boundary: "(word_of_nat n :: uint64) mod Sprint (config c) = 0"
  shows "(checkAndCommitSpan c E state header chain w = Some (Inl (Err err), st1, w1)
           \<longrightarrow> Finalize c E chain header state w
                 = Some (Inr (), header, st1,
                         logError (rt E) (ErrorCtx ''Error while committing span'' err) w1)
             \<and> FinalizeAndAssemble c E chain header state txs receipts w
                 = Some (Inl (Err err), header, st1,
                         logError (rt E) (ErrorCtx ''Error while committing span'' err) w1))
       \<and> (checkAndCommitSpan c E state header chain w = Some (Inr (), st1, w1)
           \<and> \<not> WithoutHeimdall c
           \<and> CommitStates c E st1 header chain w1 = (Inl (Err err), st2, w2)
           \<longrightarrow> Finalize c E chain header state w
                 = Some (Inr (), header, st2,
                         logError (rt E) (ErrorCtx ''Error while committing states'' err) w2)
             \<and> FinalizeAndAssemble c E chain header state txs receipts w
                 = Some (Inl (Err err), header, st2,
                         logError (rt E) (ErrorCtx ''Error while committing states'' err) w2))"
  using num sprint boundary
  by (simp add: Finalize_def FinalizeAndAssemble_def Let_def)

theorem Finalize_swallows_FinalizeAndAssemble_returns_witness:
  "Finalize (testBor 4 0xA (Inl (Err (errorString ''execution reverted''))) (Inr []))
       (testEnv 50) (testChain [testHeader 0 40 (replicate 97 0)]) (testHeader 4 0 [])
       testState (testWorld [])
     = Some (Inr (), testHeader 4 0 [], testState,
             (testWorld [])\<lparr>wLog := [ErrorCtx ''Error while committing span''
                                        (errorString ''execution reverted'')]\<rparr>)
   \<and> FinalizeAndAssemble (testBor 4 0xA (Inl (Err (errorString ''execution reverted''))) (Inr []))
       (testEnv 50) (testChain [testHeader 0 40 (replicate 97 0)]) (testHeader 4 0 [])
       testState [] [] (testWorld [])
     = Some (Inl (Err (errorString ''execution reverted'')), testHeader 4 0 [], testState,
             (testWorld [])\<lparr>wLog := [ErrorCtx ''Error while committing span''
                                        (errorString ''execution reverted'')]\<rparr>)
   \<and> Finalize (testBor 4 0xA (Inr []) (Inl (Err (errorString ''heimdall unavailable''))))
       (testEnv 50) (testChain [testHeader 0 40 (replicate 97 0)]) (testHeader 4 0 [])
       testState (testWorld [])
     = Some (Inr (), testHeader 4 0 [], testState,
             (testWorld [])\<lparr>wLog := [ErrorCtx ''Error while committing states''
                                        (errorString ''heimdall unavailable'')]\<rparr>)
   \<and> FinalizeAndAssemble (testBor 4 0xA (Inr []) (Inl (Err (errorString ''heimdall unavailable''))))
       (testEnv 50) (testChain [testHeader 0 40 (replicate 97 0)]) (testHeader 4 0 [])
       testState [] [] (testWorld [])
     = Some (Inl (Err (errorString ''heimdall unavailable'')), testHeader 4 0 [], testState,
             (testWorld [])\<lparr>wLog := [ErrorCtx ''Error while committing states''
                                        (errorString ''heimdall unavailable'')]\<rparr>)"
proof -
  let ?c1 = "testBor 4 0xA (Inl (Err (errorString ''execution reverted''))) (Inr [])"
  let ?c2 = "testBor 4 0xA (Inr []) (Inl (Err (errorString ''heimdall unavailable'')))"
  let ?chain = "testChain [testHeader 0 40 (replicate 97 0)]"
  let ?h = "testHeader 4 0 []"
  have num: "Number ?h = Some 4" by (simp add: testHeader_def)
  have sprint: "Sprint (config (testBor 4 sg cr fr)) \<noteq> 0" for sg cr fr
    by (simp add: testBor_def testConfig_def)
  have boundary: "(word_of_nat 4 :: uint64) mod Sprint (config (testBor 4 sg cr fr)) = 0"
    for sg cr fr
    by (simp add: testBor_def testConfig_def)
  have span1: "checkAndCommitSpan ?c1 (testEnv 50) testState ?h ?chain (testWorld [])
                 = Some (Inl (Err (errorString ''execution reverted'')), testState, testWorld [])"
    by (simp add: checkAndCommitSpan_def GetCurrentSpan_def testHeader_def testBor_def
          testABI_def)
  have span2: "checkAndCommitSpan ?c2 (testEnv 50) testState ?h ?chain (testWorld [])
                 = Some (Inr (), testState, testWorld [])"
    by (simp add: checkAndCommitSpan_def GetCurrentSpan_def needToCommitSpan_def testHeader_def
          testBor_def testABI_def testConfig_def)
  have heimdall: "\<not> WithoutHeimdall ?c2" by (simp add: testBor_def)
  have states: "CommitStates ?c2 (testEnv 50) testState ?h ?chain (testWorld [])
                 = (Inl (Err (errorString ''heimdall unavailable'')), testState, testWorld [])"
    by (simp add: CommitStates_def testHeader_def testBor_def testContracts_def testChain_def
          testConfig_def testHeimdall_def)
  have log: "logError (rt (testEnv 50)) e (testWorld []) = (testWorld [])\<lparr>wLog := [e]\<rparr>" for e
    by (simp add: testEnv_def testRuntime_def testWorld_def)
  show ?thesis
    using Finalize_swallows_FinalizeAndAssemble_returns [
            where c = ?c1 and E = "testEnv 50" and state = testState and chain = ?chain
              and w = "testWorld []" and err = "errorString ''execution reverted''"
              and ?st1.0 = testState and ?w1.0 = "testWorld []" and txs = "[]"
              and receipts = "[]", OF num sprint boundary]
          Finalize_swallows_FinalizeAndAssemble_returns [
            where c = ?c2 and E = "testEnv 50" and state = testState and chain = ?chain
              and w = "testWorld []" and err = "errorString ''heimdall unavailable''"
              and ?st1.0 = testState and ?w1.0 = "testWorld []" and ?st2.0 = testState
              and ?w2.0 = "testWorld []" and txs = "[]" and receipts = "[]",
            OF num sprint boundary]
          span1 span2 heimdall states
    by (simp add: log)
qed

subsection \<open>Prepare\<close>

text \<open>
  C8. Whenever Prepare succeeds, at a clock that reads the second \<open>now\<close> throughout the
  call, the time of the prepared header is
  \<open>max (parent.time + CalcProducerDelay(number, succession, cfg)) now\<close> in uint64
  arithmetic, where \<open>parent\<close> is the header the chain has for the parent hash, and
  \<open>succession\<close> is the succession number of the configured signer in the snapshot at
  the parent block (and 0 for an engine with no signer, the zero address).
\<close>

theorem Prepare_time:
  assumes ok: "Prepare c E chain header w = Some (Inr (), header', w')"
      and clock: "\<And>v. Unix (fst (timeNow (rt E) v)) = nowSec"
  shows "\<exists>n snap w1 parent succession delay.
           Number header = Some n
         \<and> snapshot c E chain (word_of_nat n - 1) (ParentHash header) [] w = Some (Inr snap, w1)
         \<and> GetHeader chain (ParentHash header) (word_of_nat n - 1) = Some parent
         \<and> (if signer c \<noteq> 0 then GetSignerSuccessionNumber (snapPkg E) snap (signer c)
             else Inr 0) = Inr succession
         \<and> CalcProducerDelay (word_of_nat n) succession (config c) = Inr delay
         \<and> Time header' = max (Time parent + delay) nowSec"
proof -
  obtain n where num: "Number header = Some n"
    using ok by (cases "Number header") (simp_all add: Prepare_def Let_def)
  obtain snap w1 where snap:
    "snapshot c E chain (word_of_nat n - 1) (ParentHash header) [] w = Some (Inr snap, w1)"
    using ok num
    by (auto simp: Prepare_def Let_def split: option.splits sum.splits prod.splits)
  have clk: "\<And>v t v'. timeNow (rt E) v = (t, v') \<Longrightarrow> Unix t = nowSec"
    using clock by (metis fst_conv)
  show ?thesis
    using ok num snap
    by (auto simp: Prepare_def Let_def max_def not_less
             dest!: clk
             split: if_splits sum.splits prod.splits option.splits fault.splits;
        force)
qed

theorem Prepare_time_witness:
  "(\<exists>h' w'. Prepare (testBor 4 0xB (Inr []) (Inr [])) (testEnv 50)
              (testChain [testHeader 0 100 (replicate 97 0)]) (testHeader 1 0 [])
              (testWorld [(0x100, testSnapshot 0)]) = Some (Inr (), h', w')
           \<and> Time h' = 104)"
proof -
  let ?c = "testBor 4 0xB (Inr []) (Inr [])"
  let ?chain = "testChain [testHeader 0 100 (replicate 97 0)]"
  let ?w = "testWorld [(0x100, testSnapshot 0)]"
  have snap: "snapshot ?c (testEnv 50) ?chain 0 0x100 [] ?w
                = Some (Inr (testSnapshot 0),
                        ?w\<lparr>wRecents := [(0x100, testSnapshot 0), (0x100, testSnapshot 0)]\<rparr>)"
    by (simp add: snapshot_def snapshotSearch.simps testBor_def testRecents_def testWorld_def
          testEnv_def testSnapshotPkg_def testSnapshot_def checkpointInterval_def)
  obtain h' w' where run:
    "Prepare ?c (testEnv 50) ?chain (testHeader 1 0 []) ?w = Some (Inr (), h', w')"
    using snap
    by (simp add: Prepare_def Let_def testHeader_def testBor_def testConfig_def testEnv_def
          testSnapshotPkg_def testRuntime_def testChain_def testHash_def
          CalcProducerDelay_def Unix_def extraVanity_def word_sless_alt)
  have clock: "\<And>v. Unix (fst (timeNow (rt (testEnv 50)) v)) = (50 :: uint64)"
    by (simp add: testEnv_def testRuntime_def Unix_def)
  have par: "GetHeader ?chain (ParentHash (testHeader 1 0 [])) (word_of_nat n - 1) = Some parent
             \<Longrightarrow> Time parent = 100" for n parent
    by (auto simp: testChain_def testHeader_def split: if_splits)
  have succ: "(if signer ?c \<noteq> 0 then GetSignerSuccessionNumber (snapPkg (testEnv 50)) s (signer ?c)
               else Inr 0) = Inr succession \<Longrightarrow> succession = 1" for s succession
    by (simp add: testBor_def testEnv_def testSnapshotPkg_def)
  have del: "Number (testHeader 1 0 []) = Some n
             \<Longrightarrow> CalcProducerDelay (word_of_nat n) 1 (config ?c) = Inr delay \<Longrightarrow> delay = 4"
    for n delay
    by (auto simp: CalcProducerDelay_def testBor_def testConfig_def testHeader_def word_sless_alt)
  have "Time h' = 104"
    using Prepare_time [OF run clock] par succ del by fastforce
  then show ?thesis using run by blast
qed

subsection \<open>Seal\<close>

text \<open>
  C9. Seal returns the unknown-block error for every block with number 0. For every other
  block on a chain with period 0 that carries no transactions it returns at once with no
  error. In both cases it starts no goroutine, so nothing is ever offered to the results
  channel, and it leaves the engine's caches and database untouched.
\<close>

theorem Seal_early_returns:
  assumes num: "Number (blockHeader block) = Some n"
  shows "((word_of_nat n :: uint64) = 0
            \<longrightarrow> Seal c E chain block w = Some (Inl (Err errUnknownBlock), None, w))
       \<and> ((word_of_nat n :: uint64) \<noteq> 0 \<and> Period (config c) = 0 \<and> Transactions block = []
            \<longrightarrow> Seal c E chain block w = Some (Inr (), None, w))
       \<and> (((word_of_nat n :: uint64) = 0 \<or> Period (config c) = 0 \<and> Transactions block = [])
            \<longrightarrow> (\<exists>r. Seal c E chain block w = Some (r, None, w))
                \<and> emitted None stopFirst receiverReady = None)"
  using num by (simp add: Seal_def CopyHeader_def Let_def emitted_def)

theorem Seal_early_returns_witness:
  "Seal (testBor 4 0xA (Inr []) (Inr [])) (testEnv 50) (testChain [])
       \<lparr>blockHeader = testHeader 0 60 (replicate 97 0), Transactions = []\<rparr> (testWorld [])
     = Some (Inl (Err errUnknownBlock), None, testWorld [])
   \<and> Seal ((testBor 4 0xA (Inr []) (Inr []))\<lparr>config := (testConfig 4)\<lparr>Period := 0\<rparr>\<rparr>)
       (testEnv 50) (testChain [])
       \<lparr>blockHeader = testHeader 1 60 (replicate 97 0), Transactions = []\<rparr> (testWorld [])
     = Some (Inr (), None, testWorld [])"
proof -
  have n0: "Number (blockHeader \<lparr>blockHeader = testHeader 0 60 (replicate 97 0),
                                 Transactions = []\<rparr>) = Some 0"
    by (simp add: testHeader_def)
  have n1: "Number (blockHeader \<lparr>blockHeader = testHeader 1 60 (replicate 97 0),
                                 Transactions = []\<rparr>) = Some 1"
    by (simp add: testHeader_def)
  show ?thesis
    using Seal_early_returns [OF n0, where c = "testBor 4 0xA (Inr []) (Inr [])"
            and E = "testEnv 50" and chain = "testChain []" and w = "testWorld []"]
          Seal_early_returns [OF n1,
            where c = "(testBor 4 0xA (Inr []) (Inr []))\<lparr>config := (testConfig 4)\<lparr>Period := 0\<rparr>\<rparr>"
            and E = "testEnv 50" and chain = "testChain []" and w = "testWorld []"]
    by simp
qed

subsection \<open>Contract reads\<close>

text \<open>
  C10. When packing the call succeeds and the eth API Call returns an error,
  GetCurrentValidators panics with that error, while GetCurrentValidatorsByBlockNrOrHash
  returns it. The panic reaches the callers: Prepare at a sprint-end block panics (it
  does not return its "unknown validators" error), and so does snapshot when it builds
  the snapshot of block 0 from the contract.
\<close>

theorem GetCurrentValidators_panics:
  assumes pack: "\<And>k. \<exists>data. Pack (validatorSetABI c) ''getBorValidators'' [abiUint k] = Inr data"
      and call: "\<And>args blockNr. Call (ethAPI c) args blockNr = Inl (Err err)"
  shows "GetCurrentValidators c E headerHash blockNumber w = (Inl (Panic (panicValue err)), w)
       \<and> GetCurrentValidatorsByBlockNrOrHash c E blockNrOrHash blockNumber w = (Inl (Err err), w)
       \<and> (Number header = Some n
           \<and> snapshot c E chain (word_of_nat n - 1) (ParentHash header) [] w = Some (Inr snap, w1)
           \<and> Sprint (config c) \<noteq> 0 \<and> (word_of_nat n + 1) mod Sprint (config c) = 0
           \<longrightarrow> (\<exists>h. Prepare c E chain header w = Some (Inl (Panic (panicValue err)), h, w1)))
       \<and> (Get (recents c) hash w = (None, w1)
           \<and> loadSnapshot (snapPkg E) hash w1 = Inl (Err e)
           \<and> GetHeaderByNumber chain 0 = Some checkpoint
           \<longrightarrow> snapshot c E chain 0 hash parents w = Some (Inl (Panic (panicValue err)), w1))"
proof -
  have gcv: "GetCurrentValidators c E hh bn v = (Inl (Panic (panicValue err)), v)" for hh bn v
    using pack [of "unat bn"] call
    by (auto simp: GetCurrentValidators_def Let_def)
  have sib: "GetCurrentValidatorsByBlockNrOrHash c E blockNrOrHash blockNumber w
               = (Inl (Err err), w)"
    using pack [of "unat blockNumber"] call
    by (auto simp: GetCurrentValidatorsByBlockNrOrHash_def Let_def)
  have prep: "\<exists>h. Prepare c E chain header w = Some (Inl (Panic (panicValue err)), h, w1)"
    if "Number header = Some n"
       "snapshot c E chain (word_of_nat n - 1) (ParentHash header) [] w = Some (Inr snap, w1)"
       "Sprint (config c) \<noteq> 0" "(word_of_nat n + 1) mod Sprint (config c) = 0"
    using that gcv by (simp add: Prepare_def Let_def)
  have gen: "snapshot c E chain 0 hash parents w = Some (Inl (Panic (panicValue err)), w1)"
    if "Get (recents c) hash w = (None, w1)" "loadSnapshot (snapPkg E) hash w1 = Inl (Err e)"
       "GetHeaderByNumber chain 0 = Some checkpoint"
    using that gcv
    by (simp add: snapshot_def snapshotSearch.simps checkpointInterval_def)
  show ?thesis
    apply (intro conjI impI)
       apply (rule gcv)
      apply (rule sib)
     apply (elim conjE, erule (3) prep)
    apply (elim conjE, erule (2) gen)
    done
qed

theorem GetCurrentValidators_panics_witness:
  "GetCurrentValidators (testBor 4 0xA (Inl (Err (errorString ''execution reverted''))) (Inr []))
       (testEnv 50) 0x102 4 (testWorld [])
     = (Inl (Panic (panicValue (errorString ''execution reverted''))), testWorld [])
   \<and> GetCurrentValidatorsByBlockNrOrHash
       (testBor 4 0xA (Inl (Err (errorString ''execution reverted''))) (Inr []))
       (testEnv 50) (WithNumber LatestBlockNumber) 4 (testWorld [])
     = (Inl (Err (errorString ''execution reverted'')), testWorld [])
   \<and> snapshot (testBor 4 0xA (Inl (Err (errorString ''execution reverted''))) (Inr []))
       (testEnv 50) (testChain [testHeader 0 100 (replicate 97 0)]) 0 0x100 [] (testWorld [])
     = Some (Inl (Panic (panicValue (errorString ''execution reverted''))), testWorld [])"
proof -
  let ?c = "testBor 4 0xA (Inl (Err (errorString ''execution reverted''))) (Inr [])"
  have pack: "\<And>k. \<exists>data. Pack (validatorSetABI ?c) ''getBorValidators'' [abiUint k] = Inr data"
    by (simp add: testBor_def testABI_def)
  have call: "\<And>args blockNr. Call (ethAPI ?c) args blockNr
                = Inl (Err (errorString ''execution reverted''))"
    by (simp add: testBor_def)
  have miss: "Get (recents ?c) 0x100 (testWorld []) = (None, testWorld [])"
    by (simp add: testBor_def testRecents_def testWorld_def)
  have load: "loadSnapshot (snapPkg (testEnv 50)) 0x100 (testWorld [])
                = Inl (Err (errorString ''snapshot not found''))"
    by (simp add: testEnv_def testSnapshotPkg_def testWorld_def)
  have gen: "GetHeaderByNumber (testChain [testHeader 0 100 (replicate 97 0)]) 0
               = Some (testHeader 0 100 (replicate 97 0))"
    by (simp add: testChain_def testHeader_def)
  show ?thesis
    using GetCurrentValidators_panics [OF pack call, where E = "testEnv 50"
            and headerHash = "0x102" and blockNumber = 4 and w = "testWorld []"
            and blockNrOrHash = "WithNumber LatestBlockNumber" and hash = "0x100"
            and ?w1.0 = "testWorld []" and e = "errorString ''snapshot not found''"
            and chain = "testChain [testHeader 0 100 (replicate 97 0)]"
            and checkpoint = "testHeader 0 100 (replicate 97 0)" and parents = "[]"]
          miss load gen
    by simp
qed

end
